theory Spec2Isabelle
  imports Main "HOL-Library.Sublist"
begin

section \<open>Network Policy Manager: the SDN controller application\<close>

text \<open>
  A shallow embedding of \<^verbatim>\<open>controller.py\<close>: the catalog classes (\<^verbatim>\<open>Alumno\<close>,
  \<^verbatim>\<open>Servicio\<close>, \<^verbatim>\<open>Servidor\<close>, \<^verbatim>\<open>Curso\<close>, \<^verbatim>\<open>Conexion\<close>) and the methods of
  \<^verbatim>\<open>SDNController\<close> that decide authorisation, resolve attachment points and routes,
  track the flows of a connection, and import and export the catalog.

  Conventions. A Python string is a \<open>string\<close>, the list of the bytes of its UTF-8
  encoding. The string methods of the runtime are a parameter of the model. The catalog
  dictionaries are association lists in insertion order, as Python dictionaries iterate;
  the two connection tables are maps. Catalog fields have the types that the
  constructors declare, but for the member codes of a course, which the source converts
  with \<^verbatim>\<open>str\<close>, and the protocol of a service, whose only string method is called
  inside a \<^verbatim>\<open>try\<close> block. Printing is not modelled. Every reply of the Floodlight REST interface is an argument of the function
  that issues the request.
\<close>

subsection \<open>Strings\<close>

text \<open>The string methods of the Python runtime that the source calls: \<^verbatim>\<open>str.lower\<close>,
  \<^verbatim>\<open>str.upper\<close> and \<^verbatim>\<open>str.strip\<close>. They work on Unicode (every cased letter is
  folded, every Unicode white space is stripped) and are not part of the program, so
  they are a parameter \<open>py\<close> of every function below that calls them, and every
  property holds whatever the three methods compute.\<close>

record python =
  str_lower :: "string \<Rightarrow> string"
  str_upper :: "string \<Rightarrow> string"
  str_strip :: "string \<Rightarrow> string"

text \<open>An instance for the examples, all of whose strings are ASCII: on a string of
  ASCII characters the three functions below give what the Python methods give. On
  other strings they are not the Python methods, and no property rests on them.\<close>

definition ascii_lower_char :: "char \<Rightarrow> char" where
  "ascii_lower_char c =
     (case map_of (zip ''ABCDEFGHIJKLMNOPQRSTUVWXYZ'' ''abcdefghijklmnopqrstuvwxyz'') c of
        Some d \<Rightarrow> d | None \<Rightarrow> c)"

definition ascii_upper_char :: "char \<Rightarrow> char" where
  "ascii_upper_char c =
     (case map_of (zip ''abcdefghijklmnopqrstuvwxyz'' ''ABCDEFGHIJKLMNOPQRSTUVWXYZ'') c of
        Some d \<Rightarrow> d | None \<Rightarrow> c)"

definition ascii_space :: "char \<Rightarrow> bool" where
  "ascii_space c \<longleftrightarrow>
     c \<in> set [CHR 0x09, CHR 0x0A, CHR 0x0B, CHR 0x0C, CHR 0x0D,
               CHR 0x1C, CHR 0x1D, CHR 0x1E, CHR 0x1F, CHR 0x20]"

definition py_ascii :: python where
  "py_ascii =
     \<lparr>str_lower = map ascii_lower_char,
      str_upper = map ascii_upper_char,
      str_strip = (\<lambda>s. rev (dropWhile ascii_space (rev (dropWhile ascii_space s))))\<rparr>"

text \<open>\<^verbatim>\<open>str(n)\<close> for an integer: decimal digits, with a leading minus sign.\<close>

definition digit_char :: "nat \<Rightarrow> char" where
  "digit_char d = char_of (48 + d)"

fun str_nat :: "nat \<Rightarrow> string" where
  "str_nat n = (if n < 10 then [digit_char n] else str_nat (n div 10) @ [digit_char (n mod 10)])"

declare str_nat.simps [simp del]

definition str_int :: "int \<Rightarrow> string" where
  "str_int i = (if i < 0 then CHR ''-'' # str_nat (nat (- i)) else str_nat (nat i))"

text \<open>A scalar of the YAML catalog file, where the source does not rely on its being a
  string.\<close>

datatype yaml_scalar = YStr string | YInt int

fun py_str :: "yaml_scalar \<Rightarrow> string" where
  "py_str (YStr s) = s"
| "py_str (YInt i) = str_int i"

subsection \<open>The catalog classes\<close>

record alumno =
  alu_nombre :: string
  alu_codigo :: string
  alu_mac :: string

text \<open>\<^verbatim>\<open>Servicio.protocolo\<close> is stored as the catalog file gives it; \<^verbatim>\<open>build_route\<close>
  calls \<^verbatim>\<open>.upper()\<close> on it inside its \<^verbatim>\<open>try\<close> block.\<close>

record servicio =
  svc_nombre :: string
  svc_protocolo :: yaml_scalar
  svc_puerto :: int

record servidor =
  srv_nombre :: string
  srv_ip :: string
  srv_servicios :: "servicio list"

definition agregar_servicio :: "servicio \<Rightarrow> servidor \<Rightarrow> servidor" where
  "agregar_servicio svc srv = srv\<lparr>srv_servicios := srv_servicios srv @ [svc]\<rparr>"

record curso =
  cur_codigo :: string
  cur_nombre :: string
  cur_estado :: string
  cur_alumnos :: "string list"
  cur_servidores :: "(servidor \<times> string list) list"

definition Curso :: "string \<Rightarrow> string \<Rightarrow> string \<Rightarrow> curso" where
  "Curso codigo nombre estado =
     \<lparr>cur_codigo = codigo, cur_nombre = nombre, cur_estado = estado,
      cur_alumnos = [], cur_servidores = []\<rparr>"

definition agregar_alumno :: "string \<Rightarrow> curso \<Rightarrow> curso" where
  "agregar_alumno codigo_alumno c =
     (if codigo_alumno \<notin> set (cur_alumnos c)
      then c\<lparr>cur_alumnos := cur_alumnos c @ [codigo_alumno]\<rparr> else c)"


definition agregar_servidor :: "servidor \<Rightarrow> string list \<Rightarrow> curso \<Rightarrow> curso" where
  "agregar_servidor srv servicios_permitidos c =
     c\<lparr>cur_servidores := cur_servidores c @ [(srv, servicios_permitidos)]\<rparr>"

type_synonym salto = "string \<times> int"

record conexion =
  con_id :: string
  con_alumno :: alumno
  con_servidor :: servidor
  con_servicio :: servicio
  con_ruta :: "salto list"

text \<open>The constructor draws the identifier from \<^verbatim>\<open>uuid.uuid4()\<close> (its first eight
  characters); here the identifier drawn is an argument.\<close>

definition Conexion :: "string \<Rightarrow> alumno \<Rightarrow> servidor \<Rightarrow> servicio \<Rightarrow> conexion" where
  "Conexion cid a srv svc =
     \<lparr>con_id = cid, con_alumno = a, con_servidor = srv, con_servicio = svc, con_ruta = []\<rparr>"

subsection \<open>The controller state\<close>

text \<open>An entry of \<^verbatim>\<open>conexion_flujos\<close>: \<^verbatim>\<open>build_route\<close> appends flow names (strings) and
  flow descriptors (dictionaries of strings) to the same list.\<close>

datatype flow_entry = FlowName string | FlowDict "(string \<times> string) list"

record sdn_controller =
  alumnos :: "(string \<times> alumno) list"
  servidores :: "(string \<times> servidor) list"
  cursos :: "(string \<times> curso) list"
  conexiones :: "string \<rightharpoonup> conexion"
  conexion_flujos :: "string \<rightharpoonup> flow_entry list"

definition init :: sdn_controller where
  "init = \<lparr>alumnos = [], servidores = [], cursos = [],
           conexiones = Map.empty, conexion_flujos = Map.empty\<rparr>"

text \<open>\<^verbatim>\<open>d[k] = v\<close> on a Python dictionary: an existing key keeps its position and gets
  the new value, a new key goes to the end.\<close>

fun dict_set :: "'k \<Rightarrow> 'v \<Rightarrow> ('k \<times> 'v) list \<Rightarrow> ('k \<times> 'v) list" where
  "dict_set k v [] = [(k, v)]"
| "dict_set k v ((k', v') # d) = (if k' = k then (k, v) # d else (k', v') # dict_set k v d)"

subsection \<open>Replies of the Floodlight REST interface\<close>

text \<open>\<open>SinRespuesta\<close>: \<^verbatim>\<open>requests.get\<close> raised. \<open>Respuesta code body\<close>: the status code
  and the decoded body, \<open>None\<close> when \<^verbatim>\<open>response.json()\<close> raises.\<close>

datatype 'a respuesta = SinRespuesta | Respuesta nat "'a option"

text \<open>A device of \<^verbatim>\<open>/wm/device/\<close>: its \<^verbatim>\<open>mac\<close> list and its \<^verbatim>\<open>attachmentPoint\<close> list
  (both default to the empty list); an attachment point lacking \<^verbatim>\<open>switchDPID\<close> or
  \<^verbatim>\<open>port\<close> is \<open>None\<close>.\<close>

record dispositivo =
  dev_mac :: "string list"
  dev_attachmentPoint :: "(string \<times> int) option list"

subsection \<open>Attachment points\<close>

definition normalizar_mac ::
  "python \<Rightarrow> string \<Rightarrow> string" where
  "normalizar_mac py m = filter (\<lambda>c. c \<noteq> CHR ''-'') (filter (\<lambda>c. c \<noteq> CHR '':'') (str_lower py m))"

text \<open>The loop over the devices: \<open>Some\<close> is the \<^verbatim>\<open>return dpid, port\<close>; \<open>None\<close> is both
  the end of the loop and a \<^verbatim>\<open>KeyError\<close> on the first attachment point, which leaves
  the \<^verbatim>\<open>try\<close> block at once.\<close>

fun buscar_dispositivo ::
  "python \<Rightarrow> string \<Rightarrow> dispositivo list \<Rightarrow> (string \<times> int) option" where
  "buscar_dispositivo py mac [] = None"
| "buscar_dispositivo py mac (device # devices) =
     (if normalizar_mac py mac \<in> set (map (normalizar_mac py) (dev_mac device))
      then (case dev_attachmentPoint device of
              [] \<Rightarrow> buscar_dispositivo py mac devices
            | None # _ \<Rightarrow> None
            | Some ap # _ \<Rightarrow> Some ap)
      else buscar_dispositivo py mac devices)"

definition consultar_dispositivos ::
  "python \<Rightarrow> dispositivo list respuesta \<Rightarrow> string \<Rightarrow> (string \<times> int) option" where
  "consultar_dispositivos py resp mac =
     (case resp of
        SinRespuesta \<Rightarrow> None
      | Respuesta code body \<Rightarrow>
          (if code = 200
           then (case body of None \<Rightarrow> None | Some devices \<Rightarrow> buscar_dispositivo py mac devices)
           else None))"

definition mac_map :: "(string \<times> (string \<times> int)) list" where
  "mac_map =
    [(''aa:51:aa:ba:72:41'', (''00:00:aa:51:aa:ba:72:41'', 2)),
     (''1a:74:72:3f:ef:44'', (''00:00:1a:74:72:3f:ef:44'', 2)),
     (''fe:16:3e:2c:76:52'', (''00:00:5e:c7:6e:c6:11:4c'', 1)),
     (''fa:16:3e:f4:1f:11'', (''00:00:aa:51:aa:ba:72:41'', 2)),
     (''fe:16:3e:6c:cf:e4'', (''00:00:f2:20:f9:45:4c:4e'', 3)),
     (''5e:c7:6e:c6:11:4c'', (''00:00:5e:c7:6e:c6:11:4c'', 2)),
     (''fa:16:3e:cd:5b:bd'', (''00:00:aa:51:aa:ba:72:41'', 2)),
     (''72:e0:80:7e:85:4c'', (''00:00:72:e0:80:7e:85:4c'', 2)),
     (''fe:16:3e:d5:92:74'', (''00:00:1a:74:72:3f:ef:44'', 3)),
     (''fa:16:3e:05:f4:08'', (''00:00:5e:c7:6e:c6:11:4c'', 1)),
     (''fe:16:3e:ec:df:26'', (''00:00:aa:51:aa:ba:72:41'', 5)),
     (''fa:16:3e:c4:a9:9d'', (''00:00:f2:20:f9:45:4c:4e'', 3)),
     (''fa:16:3e:3f:1a:fd'', (''00:00:5e:c7:6e:c6:11:4c'', 3)),
     (''fe:16:3e:84:34:52'', (''00:00:5e:c7:6e:c6:11:4c'', 3)),
     (''fe:16:3e:dc:6e:fa'', (''00:00:72:e0:80:7e:85:4c'', 2)),
     (''fa:16:3e:d6:a2:a3'', (''00:00:1a:74:72:3f:ef:44'', 3)),
     (''fe:16:3e:d3:02:36'', (''00:00:aa:51:aa:ba:72:41'', 2)),
     (''f2:20:f9:45:4c:4e'', (''00:00:f2:20:f9:45:4c:4e'', 3)),
     (''fe:16:3e:8b:eb:df'', (''00:00:72:e0:80:7e:85:4c'', 2))]"

text \<open>The loop over \<^verbatim>\<open>mac_map.items()\<close>; \<^verbatim>\<open>mac_norm in key\<close> on two strings is the
  substring test. After the loop comes the generic attachment point.\<close>

fun buscar_mac_map ::
  "python \<Rightarrow> string \<Rightarrow> (string \<times> (string \<times> int)) list \<Rightarrow> string \<times> int" where
  "buscar_mac_map py mac_norm [] = (''00:00:5e:c7:6e:c6:11:4c'', 3)"
| "buscar_mac_map py mac_norm ((mac_key, attachment) # rest) =
     (if sublist mac_norm (normalizar_mac py mac_key) then attachment
      else buscar_mac_map py mac_norm rest)"

definition get_attachment_point ::
  "python \<Rightarrow> dispositivo list respuesta \<Rightarrow> string \<Rightarrow> string \<times> int" where
  "get_attachment_point py resp mac =
     (case consultar_dispositivos py resp mac of
        Some ap \<Rightarrow> ap
      | None \<Rightarrow> buscar_mac_map py (normalizar_mac py mac) mac_map)"

subsection \<open>Routes\<close>

text \<open>The \<^verbatim>\<open>try\<close> block of \<^verbatim>\<open>get_route\<close>. A hop of the reply lacking \<^verbatim>\<open>switch\<close> or
  \<^verbatim>\<open>port\<close> is \<open>None\<close> and raises \<^verbatim>\<open>KeyError\<close> in the list comprehension.\<close>

definition consultar_ruta :: "salto option list respuesta \<Rightarrow> salto list option" where
  "consultar_ruta resp =
     (case resp of
        SinRespuesta \<Rightarrow> None
      | Respuesta code body \<Rightarrow>
          (if code = 200
           then (case body of
                   None \<Rightarrow> None
                 | Some path_data \<Rightarrow>
                     (if None \<in> set path_data then None else Some (map the path_data)))
           else None))"

definition get_route ::
  "salto option list respuesta \<Rightarrow> string \<Rightarrow> int \<Rightarrow> string \<Rightarrow> int \<Rightarrow> salto list" where
  "get_route resp src_dpid src_port dst_dpid dst_port =
     (case consultar_ruta resp of
        Some path \<Rightarrow> path
      | None \<Rightarrow>
          (if src_dpid = dst_dpid then [(src_dpid, dst_port)]
           else [(src_dpid, 1), (dst_dpid, dst_port)]))"

text \<open>The failures of the route request, in the words of the design: the controller is
  unreachable, the status is not 200, or decoding the reply raises.\<close>

definition ruta_falla :: "salto option list respuesta \<Rightarrow> bool" where
  "ruta_falla resp \<longleftrightarrow>
     (case resp of
        SinRespuesta \<Rightarrow> True
      | Respuesta code body \<Rightarrow>
          code \<noteq> 200 \<or> (case body of None \<Rightarrow> True | Some path_data \<Rightarrow> None \<in> set path_data))"

subsection \<open>Removing flows and connections\<close>

text \<open>The loop of \<^verbatim>\<open>eliminar_flujos\<close> only prints each entry (the delete request is
  commented out in the source), so its \<^verbatim>\<open>except\<close> branch is never taken.\<close>

definition eliminar_flujos :: "string \<Rightarrow> sdn_controller \<Rightarrow> bool \<times> sdn_controller" where
  "eliminar_flujos id_conexion s =
     (case conexion_flujos s id_conexion of
        None \<Rightarrow> (False, s)
      | Some flujos \<Rightarrow> (True, s\<lparr>conexion_flujos := (conexion_flujos s)(id_conexion := None)\<rparr>))"

definition borrar_conexion :: "string \<Rightarrow> sdn_controller \<Rightarrow> bool \<times> sdn_controller" where
  "borrar_conexion id_conexion s =
     (case conexiones s id_conexion of
        None \<Rightarrow> (False, s)
      | Some conexion \<Rightarrow>
          (let s1 = (if conexion_flujos s id_conexion \<noteq> None
                     then snd (eliminar_flujos id_conexion s) else s)
           in (True, s1\<lparr>conexiones := (conexiones s1)(id_conexion := None)\<rparr>)))"

subsection \<open>Installing the flows of a route\<close>

definition flow_name_forward :: "string \<Rightarrow> string \<Rightarrow> int \<Rightarrow> int \<Rightarrow> string" where
  "flow_name_forward cid switch_dpid in_port out_port =
     ''flow_alumno_to_servidor_'' @ cid @ ''_'' @ switch_dpid @ ''_'' @ str_int in_port
       @ ''_'' @ str_int out_port"

definition flow_name_reverse :: "string \<Rightarrow> string \<Rightarrow> int \<Rightarrow> int \<Rightarrow> string" where
  "flow_name_reverse cid switch_dpid in_port out_port =
     ''flow_servidor_to_alumno_'' @ cid @ ''_'' @ switch_dpid @ ''_'' @ str_int out_port
       @ ''_'' @ str_int in_port"

definition flow_name_arp_forward :: "string \<Rightarrow> string \<Rightarrow> int \<Rightarrow> int \<Rightarrow> string" where
  "flow_name_arp_forward cid switch_dpid in_port out_port =
     ''flow_arp_alumno_to_servidor_'' @ cid @ ''_'' @ switch_dpid @ ''_'' @ str_int in_port
       @ ''_'' @ str_int out_port"

definition flow_name_arp_reverse :: "string \<Rightarrow> string \<Rightarrow> int \<Rightarrow> int \<Rightarrow> string" where
  "flow_name_arp_reverse cid switch_dpid in_port out_port =
     ''flow_arp_servidor_to_alumno_'' @ cid @ ''_'' @ switch_dpid @ ''_'' @ str_int out_port
       @ ''_'' @ str_int in_port"

text \<open>\<^verbatim>\<open>servicio_protocolo.upper() == "TCP"\<close>: on a protocol that is not a string the
  method call raises \<^verbatim>\<open>AttributeError\<close> (\<open>None\<close>).\<close>

definition es_tcp ::
  "python \<Rightarrow> yaml_scalar \<Rightarrow> bool option" where
  "es_tcp py protocolo = (case protocolo of YStr p \<Rightarrow> Some (str_upper py p = ''TCP'') | YInt _ \<Rightarrow> None)"

definition flow_forward ::
  "python \<Rightarrow> conexion \<Rightarrow> string \<Rightarrow> int \<Rightarrow> int \<Rightarrow> (string \<times> string) list option" where
  "flow_forward py c switch_dpid in_port out_port =
     (case es_tcp py (svc_protocolo (con_servicio c)) of
        None \<Rightarrow> None
      | Some tcp \<Rightarrow> Some
         [(''switch'', switch_dpid),
          (''name'', flow_name_forward (con_id c) switch_dpid in_port out_port),
          (''cookie'', ''0''),
          (''priority'', ''32768''),
          (''in_port'', str_int in_port),
          (''eth_src'', alu_mac (con_alumno c)),
          (''eth_type'', ''0x0800''),
          (''ipv4_dst'', srv_ip (con_servidor c)),
          (''ip_proto'', if tcp then ''6'' else ''17''),
          (if tcp then ''tcp_dst'' else ''udp_dst'', str_int (svc_puerto (con_servicio c))),
          (''active'', ''true''),
          (''actions'', ''output='' @ str_int out_port)])"

definition flow_reverse ::
  "python \<Rightarrow> conexion \<Rightarrow> string \<Rightarrow> int \<Rightarrow> int \<Rightarrow> (string \<times> string) list option" where
  "flow_reverse py c switch_dpid in_port out_port =
     (case es_tcp py (svc_protocolo (con_servicio c)) of
        None \<Rightarrow> None
      | Some tcp \<Rightarrow> Some
         [(''switch'', switch_dpid),
          (''name'', flow_name_reverse (con_id c) switch_dpid in_port out_port),
          (''cookie'', ''0''),
          (''priority'', ''32768''),
          (''in_port'', str_int out_port),
          (''eth_dst'', alu_mac (con_alumno c)),
          (''eth_type'', ''0x0800''),
          (''ipv4_src'', srv_ip (con_servidor c)),
          (''ip_proto'', if tcp then ''6'' else ''17''),
          (if tcp then ''tcp_src'' else ''udp_src'', str_int (svc_puerto (con_servicio c))),
          (''active'', ''true''),
          (''actions'', ''output='' @ str_int in_port)])"

definition flow_arp_forward :: "conexion \<Rightarrow> string \<Rightarrow> int \<Rightarrow> int \<Rightarrow> (string \<times> string) list" where
  "flow_arp_forward c switch_dpid in_port out_port =
     [(''switch'', switch_dpid),
      (''name'', flow_name_arp_forward (con_id c) switch_dpid in_port out_port),
      (''cookie'', ''0''),
      (''priority'', ''32768''),
      (''in_port'', str_int in_port),
      (''eth_src'', alu_mac (con_alumno c)),
      (''eth_type'', ''0x0806''),
      (''active'', ''true''),
      (''actions'', ''output='' @ str_int out_port)]"

definition flow_arp_reverse :: "conexion \<Rightarrow> string \<Rightarrow> int \<Rightarrow> int \<Rightarrow> (string \<times> string) list" where
  "flow_arp_reverse c switch_dpid in_port out_port =
     [(''switch'', switch_dpid),
      (''name'', flow_name_arp_reverse (con_id c) switch_dpid in_port out_port),
      (''cookie'', ''0''),
      (''priority'', ''32768''),
      (''in_port'', str_int out_port),
      (''eth_type'', ''0x0806''),
      (''eth_dst'', alu_mac (con_alumno c)),
      (''active'', ''true''),
      (''actions'', ''output='' @ str_int in_port)]"

text \<open>One iteration of the loop of \<^verbatim>\<open>build_route\<close>: the four descriptors are built
  (\<open>None\<close> when building one raises), then four entries are appended to
  \<^verbatim>\<open>flujos_instalados\<close>. The source appends the two names of the data flows and, for the
  two ARP flows, the descriptors \<^verbatim>\<open>flow_arp_forward\<close> and \<^verbatim>\<open>flow_arp_reverse\<close>
  themselves. The \<^verbatim>\<open>requests.post\<close> calls are commented out in the source: no request
  is sent to the controller.\<close>

definition flujos_salto ::
  "python \<Rightarrow> conexion \<Rightarrow> string \<Rightarrow> int \<Rightarrow> int \<Rightarrow> flow_entry list option" where
  "flujos_salto py c switch_dpid in_port out_port =
     (case flow_forward py c switch_dpid in_port out_port of
        None \<Rightarrow> None
      | Some ff \<Rightarrow>
          (case flow_reverse py c switch_dpid in_port out_port of
             None \<Rightarrow> None
           | Some fr \<Rightarrow> Some
               [FlowName (flow_name_forward (con_id c) switch_dpid in_port out_port),
                FlowName (flow_name_reverse (con_id c) switch_dpid in_port out_port),
                FlowDict (flow_arp_forward c switch_dpid in_port out_port),
                FlowDict (flow_arp_reverse c switch_dpid in_port out_port)]))"

text \<open>The loop over \<^verbatim>\<open>enumerate(ruta)\<close>. The input port of the first hop is the port of
  the student's attachment point; that of a later hop is \<^verbatim>\<open>ruta[i-1][1]\<close>, the output
  port of the hop before it, which the recursion hands on. \<open>None\<close>: an exception left
  the loop.\<close>

fun instalar_flujos ::
  "python \<Rightarrow> conexion \<Rightarrow> int \<Rightarrow> salto list \<Rightarrow> flow_entry list \<Rightarrow> flow_entry list option" where
  "instalar_flujos py c in_port [] flujos_instalados = Some flujos_instalados"
| "instalar_flujos py c in_port ((switch_dpid, out_port) # resto) flujos_instalados =
     (case flujos_salto py c switch_dpid in_port out_port of
        None \<Rightarrow> None
      | Some nuevos \<Rightarrow> instalar_flujos py c out_port resto (flujos_instalados @ nuevos))"

text \<open>\<open>resp\<close> is the reply to the device query that the first iteration issues.\<close>

definition build_route ::
  "python \<Rightarrow> dispositivo list respuesta \<Rightarrow> salto list \<Rightarrow> conexion \<Rightarrow> sdn_controller
     \<Rightarrow> bool \<times> sdn_controller" where
  "build_route py resp ruta c s =
     (if ruta = [] then (False, s)
      else (case instalar_flujos py c
                   (snd (get_attachment_point py resp (alu_mac (con_alumno c)))) ruta [] of
              None \<Rightarrow> (False, s)
            | Some flujos_instalados \<Rightarrow>
                (True, s\<lparr>conexion_flujos := (conexion_flujos s)(con_id c \<mapsto> flujos_instalados)\<rparr>)))"

subsection \<open>Creating a connection\<close>

text \<open>The search for the service on the server, by name without regard to case.\<close>

fun buscar_servicio ::
  "python \<Rightarrow> string \<Rightarrow> servicio list \<Rightarrow> servicio option" where
  "buscar_servicio py nombre_servicio [] = None"
| "buscar_servicio py nombre_servicio (svc # resto) =
     (if str_lower py (svc_nombre svc) = str_lower py nombre_servicio then Some svc
      else buscar_servicio py nombre_servicio resto)"

text \<open>The inner loop of the authorisation check, over the grants of one course.\<close>

fun servidor_permitido ::
  "python \<Rightarrow> servidor \<Rightarrow> servicio \<Rightarrow> (servidor \<times> string list) list \<Rightarrow> bool" where
  "servidor_permitido py servidor servicio [] = False"
| "servidor_permitido py servidor servicio ((srv, servicios_permitidos) # resto) =
     (if srv_nombre srv = srv_nombre servidor
         \<and> str_lower py (svc_nombre servicio) \<in> set (map (str_lower py) servicios_permitidos)
      then True
      else servidor_permitido py servidor servicio resto)"

text \<open>The outer loop, over \<^verbatim>\<open>self.cursos.items()\<close>: \<open>Some curso_autorizador\<close> when
  \<^verbatim>\<open>autorizado\<close> is set.\<close>

fun buscar_autorizador ::
  "python \<Rightarrow> string \<Rightarrow> servidor \<Rightarrow> servicio \<Rightarrow> (string \<times> curso) list \<Rightarrow> curso option" where
  "buscar_autorizador py codigo_alumno servidor servicio [] = None"
| "buscar_autorizador py codigo_alumno servidor servicio ((codigo_curso, c) # resto) =
     (if cur_estado c \<noteq> ''DICTANDO''
      then buscar_autorizador py codigo_alumno servidor servicio resto
      else if codigo_alumno \<notin> set (cur_alumnos c)
      then buscar_autorizador py codigo_alumno servidor servicio resto
      else if servidor_permitido py servidor servicio (cur_servidores c) then Some c
      else buscar_autorizador py codigo_alumno servidor servicio resto)"

text \<open>What one call of \<^verbatim>\<open>crear_conexion\<close> takes from outside: the identifier drawn for
  the connection and the replies to its four requests, in the order they are issued.\<close>

record entorno =
  uuid8 :: string
  dispositivos_alumno :: "dispositivo list respuesta"
  dispositivos_servidor :: "dispositivo list respuesta"
  ruta_controlador :: "salto option list respuesta"
  dispositivos_instalacion :: "dispositivo list respuesta"

text \<open>\<^verbatim>\<open>not dpid or not port\<close>: the empty string and zero are false.\<close>

definition sin_punto :: "string \<times> int \<Rightarrow> bool" where
  "sin_punto ap \<longleftrightarrow> fst ap = [] \<or> snd ap = 0"

definition quitar_conexion :: "string \<Rightarrow> sdn_controller \<Rightarrow> sdn_controller" where
  "quitar_conexion cid s = s\<lparr>conexiones := (conexiones s)(cid := None)\<rparr>"

definition crear_conexion ::
  "python \<Rightarrow> entorno \<Rightarrow> string \<Rightarrow> string \<Rightarrow> string \<Rightarrow> sdn_controller \<Rightarrow> bool \<times> sdn_controller" where
  "crear_conexion py e codigo_alumno nombre_servidor nombre_servicio s =
     (case map_of (alumnos s) codigo_alumno of
        None \<Rightarrow> (False, s)
      | Some alumno \<Rightarrow>
     (case map_of (servidores s) nombre_servidor of
        None \<Rightarrow> (False, s)
      | Some servidor \<Rightarrow>
     (case buscar_servicio py nombre_servicio (srv_servicios servidor) of
        None \<Rightarrow> (False, s)
      | Some servicio \<Rightarrow>
     (case buscar_autorizador py codigo_alumno servidor servicio (cursos s) of
        None \<Rightarrow> (False, s)
      | Some curso_autorizador \<Rightarrow>
     (let conexion = Conexion (uuid8 e) alumno servidor servicio;
          s1 = s\<lparr>conexiones := (conexiones s)(con_id conexion \<mapsto> conexion)\<rparr>;
          alumno_ap = get_attachment_point py (dispositivos_alumno e) (alu_mac alumno)
      in if sin_punto alumno_ap then (False, quitar_conexion (con_id conexion) s1)
      else
     (let servidor_ap = get_attachment_point py (dispositivos_servidor e) ''fa:16:3e:6c:a0:7c''
      in if sin_punto servidor_ap then (False, quitar_conexion (con_id conexion) s1)
      else
     (let ruta = get_route (ruta_controlador e)
                   (fst alumno_ap) (snd alumno_ap) (fst servidor_ap) (snd servidor_ap)
      in if ruta = [] then (False, quitar_conexion (con_id conexion) s1)
      else
     (let conexion2 = conexion\<lparr>con_ruta := ruta\<rparr>;
          s2 = s1\<lparr>conexiones := (conexiones s1)(con_id conexion \<mapsto> conexion2)\<rparr>;
          instalado = build_route py (dispositivos_instalacion e) ruta conexion2 s2
      in if \<not> fst instalado then (False, quitar_conexion (con_id conexion) (snd instalado))
         else (True, snd instalado)))))))))"

text \<open>The authorising course in the words of the design: it is being taught, the user
  is one of its members, and one of its grants names the server and lists the service,
  compared without regard to case.\<close>

definition curso_cubre ::
  "python \<Rightarrow> string \<Rightarrow> string \<Rightarrow> string \<Rightarrow> curso \<Rightarrow> bool" where
  "curso_cubre py usuario nombre_servidor nombre_servicio c \<longleftrightarrow>
     cur_estado c = ''DICTANDO''
     \<and> usuario \<in> set (cur_alumnos c)
     \<and> (\<exists>(srv, permitidos) \<in> set (cur_servidores c).
           srv_nombre srv = nombre_servidor
           \<and> str_lower py nombre_servicio \<in> set (map (str_lower py) permitidos))"

subsection \<open>Catalog operations of the menu\<close>



subsection \<open>The catalog document\<close>

text \<open>The document that \<^verbatim>\<open>yaml.safe_load\<close> returns and \<^verbatim>\<open>yaml.dump\<close> takes. Every
  key that the import reads is a field; \<open>None\<close> is a key that the document lacks.\<close>

record svc_data =
  sd_nombre :: "string option"
  sd_protocolo :: "yaml_scalar option"
  sd_puerto :: "int option"

record srv_data =
  vd_nombre :: "string option"
  vd_ip :: "string option"
  vd_servicios :: "svc_data list option"

record alu_data =
  ad_nombre :: "string option"
  ad_codigo :: "string option"
  ad_mac :: "string option"

record permiso_data =
  pd_nombre :: "string option"
  pd_servicios_permitidos :: "string list option"

record curso_data =
  cd_codigo :: "string option"
  cd_nombre :: "string option"
  cd_estado :: "string option"
  cd_alumnos :: "yaml_scalar list option"
  cd_servidores :: "permiso_data list option"

record documento =
  d_servidores :: "srv_data list option"
  d_alumnos :: "alu_data list option"
  d_cursos :: "curso_data list option"

text \<open>What reading the file gives: \<open>Ilegible\<close> when \<^verbatim>\<open>open\<close> or \<^verbatim>\<open>yaml.safe_load\<close>
  raises, \<open>Vacio\<close> for an empty file (\<^verbatim>\<open>safe_load\<close> returns \<^verbatim>\<open>None\<close>), else the
  document.\<close>

datatype archivo = Ilegible | Vacio | Datos documento

subsection \<open>Import\<close>

text \<open>In the three loaders below \<open>None\<close>, or a first component \<open>False\<close>, is a
  \<^verbatim>\<open>KeyError\<close>; the dictionary returned with \<open>False\<close> is the one built when it was
  raised.\<close>

fun cargar_servicios :: "svc_data list \<Rightarrow> servidor \<Rightarrow> servidor option" where
  "cargar_servicios [] servidor = Some servidor"
| "cargar_servicios (svc_data # resto) servidor =
     (case sd_nombre svc_data of None \<Rightarrow> None | Some nombre \<Rightarrow>
     (case sd_protocolo svc_data of None \<Rightarrow> None | Some protocolo \<Rightarrow>
     (case sd_puerto svc_data of None \<Rightarrow> None | Some puerto \<Rightarrow>
        cargar_servicios resto
          (agregar_servicio
             \<lparr>svc_nombre = nombre, svc_protocolo = protocolo, svc_puerto = puerto\<rparr> servidor))))"

definition cargar_servidor :: "srv_data \<Rightarrow> servidor option" where
  "cargar_servidor srv_data =
     (case vd_nombre srv_data of None \<Rightarrow> None | Some nombre \<Rightarrow>
     (case vd_ip srv_data of None \<Rightarrow> None | Some ip \<Rightarrow>
     (case vd_servicios srv_data of
        None \<Rightarrow> Some \<lparr>srv_nombre = nombre, srv_ip = ip, srv_servicios = []\<rparr>
      | Some servicios \<Rightarrow>
          cargar_servicios servicios \<lparr>srv_nombre = nombre, srv_ip = ip, srv_servicios = []\<rparr>)))"

fun cargar_servidores ::
  "srv_data list \<Rightarrow> (string \<times> servidor) list \<Rightarrow> bool \<times> (string \<times> servidor) list" where
  "cargar_servidores [] d = (True, d)"
| "cargar_servidores (srv_data # resto) d =
     (case cargar_servidor srv_data of
        None \<Rightarrow> (False, d)
      | Some servidor \<Rightarrow> cargar_servidores resto (dict_set (srv_nombre servidor) servidor d))"

definition cargar_alumno :: "alu_data \<Rightarrow> alumno option" where
  "cargar_alumno alu_data =
     (case ad_nombre alu_data of None \<Rightarrow> None | Some nombre \<Rightarrow>
     (case ad_codigo alu_data of None \<Rightarrow> None | Some codigo \<Rightarrow>
     (case ad_mac alu_data of None \<Rightarrow> None | Some mac \<Rightarrow>
        Some \<lparr>alu_nombre = nombre, alu_codigo = codigo, alu_mac = mac\<rparr>)))"

fun cargar_alumnos ::
  "alu_data list \<Rightarrow> (string \<times> alumno) list \<Rightarrow> bool \<times> (string \<times> alumno) list" where
  "cargar_alumnos [] d = (True, d)"
| "cargar_alumnos (alu_data # resto) d =
     (case cargar_alumno alu_data of
        None \<Rightarrow> (False, d)
      | Some a \<Rightarrow> cargar_alumnos resto (dict_set (alu_codigo a) a d))"

text \<open>The grants of a course: a grant is kept when its server is in
  \<^verbatim>\<open>self.servidores\<close> and silently left out otherwise.\<close>

fun cargar_permisos ::
  "(string \<times> servidor) list \<Rightarrow> permiso_data list \<Rightarrow> curso \<Rightarrow> curso option" where
  "cargar_permisos servs [] c = Some c"
| "cargar_permisos servs (srv_data # resto) c =
     (case pd_nombre srv_data of None \<Rightarrow> None | Some nombre_servidor \<Rightarrow>
     (case pd_servicios_permitidos srv_data of None \<Rightarrow> None | Some servicios_permitidos \<Rightarrow>
     (case map_of servs nombre_servidor of
        Some servidor \<Rightarrow>
          cargar_permisos servs resto (agregar_servidor servidor servicios_permitidos c)
      | None \<Rightarrow> cargar_permisos servs resto c)))"

text \<open>The body of the inner \<^verbatim>\<open>try\<close>: one course. Each member code goes through
  \<^verbatim>\<open>str(...).strip()\<close> and \<^verbatim>\<open>agregar_alumno\<close>; a missing or empty member list is
  skipped.\<close>

definition cargar_curso ::
  "python \<Rightarrow> (string \<times> servidor) list \<Rightarrow> curso_data \<Rightarrow> curso option" where
  "cargar_curso py servs curso_data =
     (case cd_codigo curso_data of None \<Rightarrow> None | Some codigo \<Rightarrow>
     (case cd_nombre curso_data of None \<Rightarrow> None | Some nombre \<Rightarrow>
     (case cd_estado curso_data of None \<Rightarrow> None | Some estado \<Rightarrow>
     (let c = Curso codigo nombre estado;
          c1 = (case cd_alumnos curso_data of
                  None \<Rightarrow> c
                | Some alumnos_lista \<Rightarrow>
                    fold (\<lambda>codigo_alumno. agregar_alumno (str_strip py (py_str codigo_alumno)))
                      alumnos_lista c)
      in (case cd_servidores curso_data of
            None \<Rightarrow> Some c1
          | Some permisos \<Rightarrow> cargar_permisos servs permisos c1)))))"

text \<open>The loop over the courses: a course whose processing raises is skipped.\<close>

fun cargar_cursos ::
  "python \<Rightarrow> (string \<times> servidor) list \<Rightarrow> curso_data list \<Rightarrow> (string \<times> curso) list
     \<Rightarrow> (string \<times> curso) list" where
  "cargar_cursos py servs [] d = d"
| "cargar_cursos py servs (curso_data # resto) d =
     (case cargar_curso py servs curso_data of
        None \<Rightarrow> cargar_cursos py servs resto d
      | Some c \<Rightarrow> cargar_cursos py servs resto (dict_set (cur_codigo c) c d))"

definition importar_archivo ::
  "python \<Rightarrow> archivo \<Rightarrow> sdn_controller \<Rightarrow> bool \<times> sdn_controller" where
  "importar_archivo py f s =
     (case f of
        Ilegible \<Rightarrow> (False, s)
      | Vacio \<Rightarrow> (False, s\<lparr>alumnos := [], servidores := [], cursos := []\<rparr>)
      | Datos datos \<Rightarrow>
          (let s0 = s\<lparr>alumnos := [], servidores := [], cursos := []\<rparr>;
               servs = (case d_servidores datos of
                          None \<Rightarrow> (True, [])
                        | Some lista \<Rightarrow> cargar_servidores lista [])
           in if \<not> fst servs then (False, s0\<lparr>servidores := snd servs\<rparr>)
              else
          (let s1 = s0\<lparr>servidores := snd servs\<rparr>;
               alus = (case d_alumnos datos of
                         None \<Rightarrow> (True, [])
                       | Some lista \<Rightarrow> cargar_alumnos lista [])
           in if \<not> fst alus then (False, s1\<lparr>alumnos := snd alus\<rparr>)
              else
          (let s2 = s1\<lparr>alumnos := snd alus\<rparr>
           in (True, s2\<lparr>cursos := (case d_cursos datos of
                                      None \<Rightarrow> []
                                    | Some lista \<Rightarrow> cargar_cursos py (servidores s2) lista [])\<rparr>)))))"

subsection \<open>Export\<close>

text \<open>The dictionary \<^verbatim>\<open>datos\<close> that \<^verbatim>\<open>exportar_archivo\<close> builds and hands to
  \<^verbatim>\<open>yaml.dump\<close>.\<close>

definition exportar_servicio :: "servicio \<Rightarrow> svc_data" where
  "exportar_servicio svc =
     \<lparr>sd_nombre = Some (svc_nombre svc), sd_protocolo = Some (svc_protocolo svc),
      sd_puerto = Some (svc_puerto svc)\<rparr>"

definition exportar_servidor :: "servidor \<Rightarrow> srv_data" where
  "exportar_servidor srv =
     \<lparr>vd_nombre = Some (srv_nombre srv), vd_ip = Some (srv_ip srv),
      vd_servicios = Some (map exportar_servicio (srv_servicios srv))\<rparr>"

definition exportar_alumno :: "alumno \<Rightarrow> alu_data" where
  "exportar_alumno a =
     \<lparr>ad_nombre = Some (alu_nombre a), ad_codigo = Some (alu_codigo a), ad_mac = Some (alu_mac a)\<rparr>"

definition exportar_curso :: "curso \<Rightarrow> curso_data" where
  "exportar_curso c =
     \<lparr>cd_codigo = Some (cur_codigo c), cd_nombre = Some (cur_nombre c),
      cd_estado = Some (cur_estado c),
      cd_alumnos = Some (map YStr (cur_alumnos c)),
      cd_servidores = Some (map (\<lambda>(srv, servicios_permitidos).
          \<lparr>pd_nombre = Some (srv_nombre srv),
           pd_servicios_permitidos = Some servicios_permitidos\<rparr>) (cur_servidores c))\<rparr>"

definition exportar_datos :: "sdn_controller \<Rightarrow> documento" where
  "exportar_datos s =
     \<lparr>d_servidores = Some (map (\<lambda>(nombre, srv). exportar_servidor srv) (servidores s)),
      d_alumnos = Some (map (\<lambda>(codigo, a). exportar_alumno a) (alumnos s)),
      d_cursos = Some (map (\<lambda>(codigo, c). exportar_curso c) (cursos s))\<rparr>"

text \<open>\<open>escrito\<close>: whether opening and writing the file goes through. The state is not
  changed.\<close>

definition exportar_archivo :: "bool \<Rightarrow> sdn_controller \<Rightarrow> bool \<times> documento option" where
  "exportar_archivo escrito s =
     (if escrito then (True, Some (exportar_datos s)) else (False, None))"

text \<open>A document in the form that the export writes: the three collections and every
  key of every entry are present; server names, user codes and course codes are not
  repeated; the members of a course are strings that \<^verbatim>\<open>str.strip\<close> leaves as they
  are, none repeated; every grant names a server of the document.\<close>

definition svc_completo :: "svc_data \<Rightarrow> bool" where
  "svc_completo x \<longleftrightarrow> sd_nombre x \<noteq> None \<and> sd_protocolo x \<noteq> None \<and> sd_puerto x \<noteq> None"

definition srv_completo :: "srv_data \<Rightarrow> bool" where
  "srv_completo x \<longleftrightarrow>
     vd_nombre x \<noteq> None \<and> vd_ip x \<noteq> None
     \<and> (case vd_servicios x of None \<Rightarrow> False | Some l \<Rightarrow> list_all svc_completo l)"

definition alu_completo :: "alu_data \<Rightarrow> bool" where
  "alu_completo x \<longleftrightarrow> ad_nombre x \<noteq> None \<and> ad_codigo x \<noteq> None \<and> ad_mac x \<noteq> None"

definition miembro_normal ::
  "python \<Rightarrow> yaml_scalar \<Rightarrow> bool" where
  "miembro_normal py m \<longleftrightarrow> (case m of YStr x \<Rightarrow> str_strip py x = x | YInt _ \<Rightarrow> False)"

definition permiso_completo :: "string list \<Rightarrow> permiso_data \<Rightarrow> bool" where
  "permiso_completo nombres x \<longleftrightarrow>
     (case pd_nombre x of None \<Rightarrow> False | Some n \<Rightarrow> n \<in> set nombres)
     \<and> pd_servicios_permitidos x \<noteq> None"

definition curso_completo ::
  "python \<Rightarrow> string list \<Rightarrow> curso_data \<Rightarrow> bool" where
  "curso_completo py nombres x \<longleftrightarrow>
     cd_codigo x \<noteq> None \<and> cd_nombre x \<noteq> None \<and> cd_estado x \<noteq> None
     \<and> (case cd_alumnos x of
           None \<Rightarrow> False
         | Some l \<Rightarrow> list_all (miembro_normal py) l \<and> distinct l)
     \<and> (case cd_servidores x of
           None \<Rightarrow> False
         | Some l \<Rightarrow> list_all (permiso_completo nombres) l)"

definition documento_normal ::
  "python \<Rightarrow> documento \<Rightarrow> bool" where
  "documento_normal py datos \<longleftrightarrow>
     (case d_servidores datos of None \<Rightarrow> False | Some servs \<Rightarrow>
     (case d_alumnos datos of None \<Rightarrow> False | Some alus \<Rightarrow>
     (case d_cursos datos of None \<Rightarrow> False | Some curs \<Rightarrow>
        list_all srv_completo servs \<and> distinct (map vd_nombre servs)
        \<and> list_all alu_completo alus \<and> distinct (map ad_codigo alus)
        \<and> list_all (curso_completo py (map (the \<circ> vd_nombre) servs)) curs
        \<and> distinct (map cd_codigo curs))))"

subsection \<open>The commands of the menu that change the state\<close>






text \<open>A device reply in which every attachment point that is listed has a switch
  identifier that is not empty and a port that is not zero.\<close>

definition respuesta_sana :: "dispositivo list respuesta \<Rightarrow> bool" where
  "respuesta_sana resp \<longleftrightarrow>
     (case resp of
        SinRespuesta \<Rightarrow> True
      | Respuesta code body \<Rightarrow>
          (case body of
             None \<Rightarrow> True
           | Some devices \<Rightarrow>
               list_all (\<lambda>d. list_all (\<lambda>ap. case ap of None \<Rightarrow> True | Some p \<Rightarrow> \<not> sin_punto p)
                                (dev_attachmentPoint d)) devices))"

subsection \<open>A small catalog\<close>

text \<open>The scenario of the design: user \<open>U1\<close> with hardware address
  \<^verbatim>\<open>aa:bb:cc:dd:ee:01\<close> is a member of course \<open>C1\<close>, which is being taught and grants
  \<open>HTTP\<close> and \<open>DNS\<close> on server \<open>S1\<close>, but not \<open>SSH\<close>. The catalog file gives the
  protocol of \<open>DNS\<close> as the number 17.\<close>

definition ej_alumno :: alumno where
  "ej_alumno = \<lparr>alu_nombre = ''U1'', alu_codigo = ''U1'', alu_mac = ''aa:bb:cc:dd:ee:01''\<rparr>"

definition ej_http :: servicio where
  "ej_http = \<lparr>svc_nombre = ''HTTP'', svc_protocolo = YStr ''tcp'', svc_puerto = 80\<rparr>"

definition ej_ssh :: servicio where
  "ej_ssh = \<lparr>svc_nombre = ''SSH'', svc_protocolo = YStr ''TCP'', svc_puerto = 22\<rparr>"

definition ej_dns :: servicio where
  "ej_dns = \<lparr>svc_nombre = ''DNS'', svc_protocolo = YInt 17, svc_puerto = 53\<rparr>"

definition ej_servidor :: servidor where
  "ej_servidor =
     \<lparr>srv_nombre = ''S1'', srv_ip = ''10.0.0.3'', srv_servicios = [ej_http, ej_ssh, ej_dns]\<rparr>"

definition ej_curso :: curso where
  "ej_curso =
     \<lparr>cur_codigo = ''C1'', cur_nombre = ''Redes'', cur_estado = ''DICTANDO'',
      cur_alumnos = [''U1''], cur_servidores = [(ej_servidor, [''http'', ''dns''])]\<rparr>"

definition ej_catalogo :: sdn_controller where
  "ej_catalogo =
     \<lparr>alumnos = [(''U1'', ej_alumno)], servidores = [(''S1'', ej_servidor)],
      cursos = [(''C1'', ej_curso)], conexiones = Map.empty, conexion_flujos = Map.empty\<rparr>"

definition ej_documento :: documento where
  "ej_documento =
     \<lparr>d_servidores = Some
        [\<lparr>vd_nombre = Some ''S1'', vd_ip = Some ''10.0.0.3'',
          vd_servicios = Some
            [\<lparr>sd_nombre = Some ''HTTP'', sd_protocolo = Some (YStr ''tcp''), sd_puerto = Some 80\<rparr>,
             \<lparr>sd_nombre = Some ''SSH'', sd_protocolo = Some (YStr ''TCP''), sd_puerto = Some 22\<rparr>,
             \<lparr>sd_nombre = Some ''DNS'', sd_protocolo = Some (YInt 17), sd_puerto = Some 53\<rparr>]\<rparr>],
      d_alumnos = Some
        [\<lparr>ad_nombre = Some ''U1'', ad_codigo = Some ''U1'', ad_mac = Some ''aa:bb:cc:dd:ee:01''\<rparr>],
      d_cursos = Some
        [\<lparr>cd_codigo = Some ''C1'', cd_nombre = Some ''Redes'', cd_estado = Some ''DICTANDO'',
          cd_alumnos = Some [YStr ''U1''],
          cd_servidores = Some
            [\<lparr>pd_nombre = Some ''S1'', pd_servicios_permitidos = Some [''http'', ''dns'']\<rparr>]\<rparr>]\<rparr>"

text \<open>Two environments: a controller that knows both hosts and gives a route of two
  hops, and no controller at all.\<close>

definition ej_dispositivos :: "dispositivo list respuesta" where
  "ej_dispositivos = Respuesta 200 (Some
     [\<lparr>dev_mac = [''AA:BB:CC:DD:EE:01''],
       dev_attachmentPoint = [Some (''00:00:00:00:00:00:00:01'', 1)]\<rparr>,
      \<lparr>dev_mac = [''fa:16:3e:6c:a0:7c''],
       dev_attachmentPoint = [Some (''00:00:00:00:00:00:00:02'', 4)]\<rparr>])"

definition ej_entorno :: entorno where
  "ej_entorno =
     \<lparr>uuid8 = ''0a1b2c3d'', dispositivos_alumno = ej_dispositivos,
      dispositivos_servidor = ej_dispositivos,
      ruta_controlador = Respuesta 200 (Some
        [Some (''00:00:00:00:00:00:00:01'', 2), Some (''00:00:00:00:00:00:00:02'', 4)]),
      dispositivos_instalacion = ej_dispositivos\<rparr>"

definition ej_sin_controlador :: entorno where
  "ej_sin_controlador =
     \<lparr>uuid8 = ''0a1b2c3d'', dispositivos_alumno = SinRespuesta,
      dispositivos_servidor = SinRespuesta, ruta_controlador = SinRespuesta,
      dispositivos_instalacion = SinRespuesta\<rparr>"

text \<open>A reply of the controller that puts \<open>U1\<close> on port 0 of a switch.\<close>

definition ej_puerto_cero :: "dispositivo list respuesta" where
  "ej_puerto_cero = Respuesta 200 (Some
     [\<lparr>dev_mac = [''aa:bb:cc:dd:ee:01''],
       dev_attachmentPoint = [Some (''00:00:00:00:00:00:00:01'', 0)]\<rparr>])"


text \<open>A catalog document that lists the code \<open>U1\<close> twice.\<close>

definition ej_duplicado :: documento where
  "ej_duplicado =
     \<lparr>d_servidores = Some [],
      d_alumnos = Some
        [\<lparr>ad_nombre = Some ''Ana'', ad_codigo = Some ''U1'', ad_mac = Some ''aa:bb:cc:dd:ee:01''\<rparr>,
         \<lparr>ad_nombre = Some ''Luis'', ad_codigo = Some ''U1'', ad_mac = Some ''aa:bb:cc:dd:ee:02''\<rparr>],
      d_cursos = Some []\<rparr>"

definition ej_ruta :: "salto list" where
  "ej_ruta = [(''00:00:00:00:00:00:00:01'', 2), (''00:00:00:00:00:00:00:02'', 4)]"


section \<open>Properties\<close>

subsection \<open>Evaluating the small catalog\<close>



lemma Conexion_id: "con_id (Conexion cid a srv svc) = cid"
  by (simp add: Conexion_def)

lemma ej_ap_alumno:
  "get_attachment_point py_ascii ej_dispositivos ''aa:bb:cc:dd:ee:01'' = (''00:00:00:00:00:00:00:01'', 1)"
  by (simp add: ej_dispositivos_def get_attachment_point_def consultar_dispositivos_def
      normalizar_mac_def py_ascii_def ascii_lower_char_def)

lemma ej_ap_servidor:
  "get_attachment_point py_ascii ej_dispositivos ''fa:16:3e:6c:a0:7c'' = (''00:00:00:00:00:00:00:02'', 4)"
  by (simp add: ej_dispositivos_def get_attachment_point_def consultar_dispositivos_def
      normalizar_mac_def py_ascii_def ascii_lower_char_def)

lemma ej_buscar_http: "buscar_servicio py_ascii ''http'' (srv_servicios ej_servidor) = Some ej_http"
  by (simp add: ej_servidor_def ej_http_def py_ascii_def ascii_lower_char_def)


lemma ej_buscar_ssh: "buscar_servicio py_ascii ''ssh'' (srv_servicios ej_servidor) = Some ej_ssh"
  by (simp add: ej_servidor_def ej_http_def ej_ssh_def ej_dns_def py_ascii_def ascii_lower_char_def)

lemma ej_autoriza_http:
  "buscar_autorizador py_ascii ''U1'' ej_servidor ej_http (cursos ej_catalogo) = Some ej_curso"
  by (simp add: ej_catalogo_def ej_curso_def ej_http_def py_ascii_def ascii_lower_char_def)


lemma ej_autoriza_ssh:
  "buscar_autorizador py_ascii ''U1'' ej_servidor ej_ssh (cursos ej_catalogo) = None"
  by (simp add: ej_catalogo_def ej_curso_def ej_ssh_def py_ascii_def ascii_lower_char_def)

lemma ej_es_tcp: "es_tcp py_ascii (svc_protocolo ej_http) = Some True"
  by (simp add: es_tcp_def ej_http_def py_ascii_def ascii_upper_char_def)


lemma ej_get_route:
  "get_route (ruta_controlador ej_entorno)
     ''00:00:00:00:00:00:00:01'' 1 ''00:00:00:00:00:00:00:02'' 4 = ej_ruta"
  by (simp add: ej_entorno_def get_route_def consultar_ruta_def ej_ruta_def)

lemma ej_ruta_no_vacia: "ej_ruta \<noteq> []"
  by (simp add: ej_ruta_def)

lemma ej_catalogo_sel:
  "map_of (alumnos ej_catalogo) ''U1'' = Some ej_alumno"
  "map_of (servidores ej_catalogo) ''S1'' = Some ej_servidor"
  "conexiones ej_catalogo = Map.empty"
  "conexion_flujos ej_catalogo = Map.empty"
  by (simp_all add: ej_catalogo_def)

lemma ej_entorno_sel:
  "uuid8 ej_entorno = ''0a1b2c3d''"
  "dispositivos_alumno ej_entorno = ej_dispositivos"
  "dispositivos_servidor ej_entorno = ej_dispositivos"
  "dispositivos_instalacion ej_entorno = ej_dispositivos"
  by (simp_all add: ej_entorno_def)

lemma ej_mac: "alu_mac ej_alumno = ''aa:bb:cc:dd:ee:01''"
  by (simp add: ej_alumno_def)

lemma ej_build_http:
  "fst (build_route py_ascii ej_dispositivos ej_ruta
     (Conexion ''0a1b2c3d'' ej_alumno ej_servidor ej_http\<lparr>con_ruta := ej_ruta\<rparr>) s)"
  by (simp add: build_route_def ej_ruta_def Conexion_def ej_mac ej_ap_alumno flujos_salto_def
     flow_forward_def flow_reverse_def ej_es_tcp)


lemma ej_crear_http:
  "fst (crear_conexion py_ascii ej_entorno ''U1'' ''S1'' ''http'' ej_catalogo)"
  by (simp add: crear_conexion_def ej_catalogo_sel ej_entorno_sel ej_buscar_http ej_autoriza_http
      ej_mac ej_ap_alumno ej_ap_servidor ej_get_route sin_punto_def Let_def ej_build_http
      Conexion_id ej_ruta_no_vacia)


lemma ej_importar:
  "importar_archivo py_ascii (Datos ej_documento) init = (True, ej_catalogo)"
  by (simp add: importar_archivo_def ej_documento_def init_def ej_catalogo_def ej_curso_def
      ej_servidor_def ej_http_def ej_ssh_def ej_dns_def ej_alumno_def cargar_servidor_def
      cargar_alumno_def cargar_curso_def agregar_servicio_def agregar_alumno_def
      agregar_servidor_def Curso_def py_ascii_def ascii_space_def Let_def)

subsection \<open>Course membership\<close>

text \<open>
  C8. Adding to a course a member code that its member list already holds changes
  nothing: the course, and so the member list and its length, stay as they were.
\<close>

theorem agregar_alumno_idempotent:
  assumes "codigo_alumno \<in> set (cur_alumnos c)"
  shows "agregar_alumno codigo_alumno c = c
         \<and> cur_alumnos (agregar_alumno codigo_alumno c) = cur_alumnos c
         \<and> length (cur_alumnos (agregar_alumno codigo_alumno c)) = length (cur_alumnos c)"
  using assms by (simp add: agregar_alumno_def)

theorem agregar_alumno_idempotent_witness:
  "''U1'' \<in> set (cur_alumnos ej_curso)
   \<and> agregar_alumno ''U1'' ej_curso = ej_curso
   \<and> cur_alumnos (agregar_alumno ''U1'' ej_curso) = [''U1'']
   \<and> length (cur_alumnos (agregar_alumno ''U1'' ej_curso)) = 1"
proof -
  have h: "''U1'' \<in> set (cur_alumnos ej_curso)"
    by (simp add: ej_curso_def)
  have v: "cur_alumnos ej_curso = [''U1'']"
    by (simp add: ej_curso_def)
  show ?thesis
    using h v agregar_alumno_idempotent [OF h] by simp
qed

subsection \<open>Removing a connection\<close>

lemma borrar_conexion_quita:
  assumes "conexiones s id_conexion = Some c"
  shows "fst (borrar_conexion id_conexion s)
         \<and> conexiones (snd (borrar_conexion id_conexion s)) = (conexiones s)(id_conexion := None)
         \<and> conexion_flujos (snd (borrar_conexion id_conexion s))
             = (conexion_flujos s)(id_conexion := None)"
proof (cases "conexion_flujos s id_conexion")
  case None
  then have "(conexion_flujos s)(id_conexion := None) = conexion_flujos s"
    by (simp add: fun_upd_idem)
  with assms None show ?thesis by (simp add: borrar_conexion_def Let_def)
next
  case (Some flujos)
  with assms show ?thesis
    by (simp add: borrar_conexion_def eliminar_flujos_def Let_def)
qed

lemma build_route_conexiones:
  "conexiones (snd (build_route py resp ruta c s)) = conexiones s"
  by (simp add: build_route_def split: option.splits)


lemma build_route_dom:
  "fst (build_route py resp ruta c s) \<Longrightarrow>
     dom (conexion_flujos (snd (build_route py resp ruta c s)))
       = insert (con_id c) (dom (conexion_flujos s))"
  by (auto simp add: build_route_def split: option.splits if_splits)


lemma crear_conexion_done:
  assumes "fst (crear_conexion py e u sv sn s)"
  shows "dom (conexion_flujos (snd (crear_conexion py e u sv sn s)))
           = insert (uuid8 e) (dom (conexion_flujos s))
         \<and> dom (conexiones (snd (crear_conexion py e u sv sn s)))
           = insert (uuid8 e) (dom (conexiones s))"
  using assms
  by (auto simp add: crear_conexion_def Let_def quitar_conexion_def Conexion_def
      build_route_dom build_route_conexiones split: option.splits if_splits)

text \<open>
  C10. For a connection identifier that is not in the registry, \<open>borrar_conexion\<close>
  returns false and the whole state (registry, flow table and catalog) is the one
  before the call.
\<close>

theorem borrar_conexion_unknown:
  assumes "conexiones s id_conexion = None"
  shows "borrar_conexion id_conexion s = (False, s)"
  using assms by (simp add: borrar_conexion_def)

theorem borrar_conexion_unknown_witness:
  "conexiones ej_catalogo ''0a1b2c3d'' = None
   \<and> borrar_conexion ''0a1b2c3d'' ej_catalogo = (False, ej_catalogo)"
proof -
  have h: "conexiones ej_catalogo ''0a1b2c3d'' = None" by (simp add: ej_catalogo_sel)
  show ?thesis using h borrar_conexion_unknown [OF h] by simp
qed

text \<open>
  C2. For a connection identifier that is in the registry, after \<open>borrar_conexion\<close>
  returns the identifier is in neither the registry nor the flow table, and the call
  reports success. The loop that removes the flows cannot fail in the source (the
  delete request is commented out), so there is no outcome of the removal on which the
  result depends.
\<close>

theorem borrar_conexion_complete:
  assumes "id_conexion \<in> dom (conexiones s)"
  shows "fst (borrar_conexion id_conexion s)
         \<and> id_conexion \<notin> dom (conexiones (snd (borrar_conexion id_conexion s)))
         \<and> id_conexion \<notin> dom (conexion_flujos (snd (borrar_conexion id_conexion s)))"
proof -
  from assms obtain c where "conexiones s id_conexion = Some c" by blast
  from borrar_conexion_quita [OF this] show ?thesis by simp
qed

theorem borrar_conexion_complete_witness:
  "''0a1b2c3d'' \<in> dom (conexiones (snd (crear_conexion py_ascii ej_entorno ''U1'' ''S1'' ''http'' ej_catalogo)))
   \<and> ''0a1b2c3d'' \<in> dom (conexion_flujos (snd (crear_conexion py_ascii ej_entorno ''U1'' ''S1'' ''http'' ej_catalogo)))
   \<and> fst (borrar_conexion ''0a1b2c3d''
            (snd (crear_conexion py_ascii ej_entorno ''U1'' ''S1'' ''http'' ej_catalogo)))
   \<and> ''0a1b2c3d'' \<notin> dom (conexiones (snd (borrar_conexion ''0a1b2c3d''
            (snd (crear_conexion py_ascii ej_entorno ''U1'' ''S1'' ''http'' ej_catalogo)))))
   \<and> ''0a1b2c3d'' \<notin> dom (conexion_flujos (snd (borrar_conexion ''0a1b2c3d''
            (snd (crear_conexion py_ascii ej_entorno ''U1'' ''S1'' ''http'' ej_catalogo)))))"
proof -
  have h: "''0a1b2c3d'' \<in> dom (conexiones (snd (crear_conexion py_ascii ej_entorno ''U1'' ''S1'' ''http'' ej_catalogo)))"
    and f: "''0a1b2c3d'' \<in> dom (conexion_flujos (snd (crear_conexion py_ascii ej_entorno ''U1'' ''S1'' ''http'' ej_catalogo)))"
    using crear_conexion_done [OF ej_crear_http] by (simp_all add: ej_entorno_sel)
  show ?thesis
    using h f borrar_conexion_complete [OF h] by simp
qed

subsection \<open>Routes\<close>

text \<open>
  C6. When the route request fails (no reply, a status other than 200, or a reply whose
  decoding raises), \<open>get_route\<close> returns the synthesised path: the single hop of the
  shared switch with the destination port when source and destination switch are the
  same, and otherwise the source switch (with port 1) followed by the destination
  switch (with the destination port). The path is never empty.
\<close>

theorem get_route_fallback:
  assumes "ruta_falla resp"
  shows "get_route resp src_dpid src_port dst_dpid dst_port =
           (if src_dpid = dst_dpid then [(src_dpid, dst_port)]
            else [(src_dpid, 1), (dst_dpid, dst_port)])
         \<and> get_route resp src_dpid src_port dst_dpid dst_port \<noteq> []"
proof -
  from assms have "consultar_ruta resp = None"
    by (auto simp: ruta_falla_def consultar_ruta_def split: respuesta.splits option.splits)
  then show ?thesis by (simp add: get_route_def)
qed

theorem get_route_fallback_witness:
  "ruta_falla (Respuesta 404 None)
   \<and> get_route (Respuesta 404 None) ''00:00:aa:51:aa:ba:72:41'' 2 ''00:00:aa:51:aa:ba:72:41'' 5
       = [(''00:00:aa:51:aa:ba:72:41'', 5)]
   \<and> ruta_falla SinRespuesta
   \<and> get_route SinRespuesta ''00:00:aa:51:aa:ba:72:41'' 2 ''00:00:5e:c7:6e:c6:11:4c'' 3
       = [(''00:00:aa:51:aa:ba:72:41'', 1), (''00:00:5e:c7:6e:c6:11:4c'', 3)]"
proof -
  have h1: "ruta_falla (Respuesta 404 None)" by (simp add: ruta_falla_def)
  have h2: "ruta_falla SinRespuesta" by (simp add: ruta_falla_def)
  show ?thesis
    using h1 h2
      get_route_fallback [OF h1, of "''00:00:aa:51:aa:ba:72:41''" 2 "''00:00:aa:51:aa:ba:72:41''" 5]
      get_route_fallback [OF h2, of "''00:00:aa:51:aa:ba:72:41''" 2 "''00:00:5e:c7:6e:c6:11:4c''" 3]
    by simp
qed

subsection \<open>Authorisation\<close>

lemma servidor_permitido_iff:
  "servidor_permitido py servidor servicio gs \<longleftrightarrow>
     (\<exists>(srv, permitidos) \<in> set gs.
        srv_nombre srv = srv_nombre servidor
        \<and> str_lower py (svc_nombre servicio) \<in> set (map (str_lower py) permitidos))"
  by (induction gs) auto

lemma buscar_servicio_Some:
  "buscar_servicio py n xs = Some svc \<Longrightarrow> str_lower py (svc_nombre svc) = str_lower py n \<and> svc \<in> set xs"
  by (induction xs) (auto split: if_splits)

lemma buscar_autorizador_find:
  "buscar_autorizador py u servidor servicio cs =
     find (\<lambda>c. cur_estado c = ''DICTANDO'' \<and> u \<in> set (cur_alumnos c)
                \<and> servidor_permitido py servidor servicio (cur_servidores c)) (map snd cs)"
  by (induction cs) auto

lemma curso_cubre_servidor_permitido:
  assumes "str_lower py (svc_nombre servicio) = str_lower py n"
  shows "curso_cubre py u (srv_nombre servidor) n c \<longleftrightarrow>
     cur_estado c = ''DICTANDO'' \<and> u \<in> set (cur_alumnos c)
       \<and> servidor_permitido py servidor servicio (cur_servidores c)"
  using assms unfolding curso_cubre_def servidor_permitido_iff by simp

text \<open>
  C4. Let the user, the server and the service on that server exist. The authorisation
  check of \<open>crear_conexion\<close> yields the first course, in the order in which the courses
  were inserted, that is being taught (\<open>DICTANDO\<close>), has the user as a member and has a
  grant for that server whose list of permitted services holds the service name without
  regard to case (both sides go through \<^verbatim>\<open>str.lower\<close>, whatever it computes). It
  yields a course if and only if there is such a course; when there is none,
  \<open>crear_conexion\<close> returns false and leaves the state as it was, so that no connection
  is created.
\<close>

theorem autorizacion_primer_curso:
  assumes "map_of (alumnos s) usuario = Some alumno"
    and "map_of (servidores s) nombre_servidor = Some servidor"
    and "buscar_servicio py nombre_servicio (srv_servicios servidor) = Some servicio"
  shows "buscar_autorizador py usuario servidor servicio (cursos s)
           = find (curso_cubre py usuario (srv_nombre servidor) nombre_servicio) (map snd (cursos s))
         \<and> ((\<exists>c. buscar_autorizador py usuario servidor servicio (cursos s) = Some c)
              \<longleftrightarrow> (\<exists>c \<in> set (map snd (cursos s)).
                     curso_cubre py usuario (srv_nombre servidor) nombre_servicio c))
         \<and> ((\<forall>c \<in> set (map snd (cursos s)).
                 \<not> curso_cubre py usuario (srv_nombre servidor) nombre_servicio c)
              \<longrightarrow> crear_conexion py e usuario nombre_servidor nombre_servicio s = (False, s))"
proof -
  have low: "str_lower py (svc_nombre servicio) = str_lower py nombre_servicio"
    using buscar_servicio_Some [OF assms(3)] by simp
  have eq: "buscar_autorizador py usuario servidor servicio (cursos s)
           = find (curso_cubre py usuario (srv_nombre servidor) nombre_servicio) (map snd (cursos s))"
    unfolding buscar_autorizador_find
    by (rule find_cong) (simp_all add: curso_cubre_servidor_permitido [OF low])
  have ex: "(\<exists>c. buscar_autorizador py usuario servidor servicio (cursos s) = Some c)
              \<longleftrightarrow> (\<exists>c \<in> set (map snd (cursos s)).
                     curso_cubre py usuario (srv_nombre servidor) nombre_servicio c)"
    unfolding eq by (metis find_None_iff2 not_Some_eq)
  have no: "(\<forall>c \<in> set (map snd (cursos s)).
                 \<not> curso_cubre py usuario (srv_nombre servidor) nombre_servicio c)
              \<longrightarrow> crear_conexion py e usuario nombre_servidor nombre_servicio s = (False, s)"
  proof
    assume "\<forall>c \<in> set (map snd (cursos s)).
                 \<not> curso_cubre py usuario (srv_nombre servidor) nombre_servicio c"
    then have "buscar_autorizador py usuario servidor servicio (cursos s) = None"
      unfolding eq by (simp add: find_None_iff)
    then show "crear_conexion py e usuario nombre_servidor nombre_servicio s = (False, s)"
      using assms by (simp add: crear_conexion_def)
  qed
  from eq ex no show ?thesis by blast
qed

text \<open>The witness: \<open>U1\<close> is authorised for \<open>HTTP\<close> on \<open>S1\<close> by course \<open>C1\<close>, and is
  refused \<open>SSH\<close>, which no course grants.\<close>

theorem autorizacion_primer_curso_witness:
  "map_of (alumnos ej_catalogo) ''U1'' = Some ej_alumno
   \<and> map_of (servidores ej_catalogo) ''S1'' = Some ej_servidor
   \<and> buscar_servicio py_ascii ''http'' (srv_servicios ej_servidor) = Some ej_http
   \<and> buscar_servicio py_ascii ''ssh'' (srv_servicios ej_servidor) = Some ej_ssh
   \<and> find (curso_cubre py_ascii ''U1'' (srv_nombre ej_servidor) ''http'') (map snd (cursos ej_catalogo))
       = Some ej_curso
   \<and> find (curso_cubre py_ascii ''U1'' (srv_nombre ej_servidor) ''ssh'') (map snd (cursos ej_catalogo))
       = None
   \<and> crear_conexion py_ascii ej_entorno ''U1'' ''S1'' ''ssh'' ej_catalogo = (False, ej_catalogo)"
proof -
  note a = ej_catalogo_sel(1) and b = ej_catalogo_sel(2)
  have no: "\<forall>c \<in> set (map snd (cursos ej_catalogo)).
         \<not> curso_cubre py_ascii ''U1'' (srv_nombre ej_servidor) ''ssh'' c"
    by (simp add: ej_catalogo_def ej_curso_def ej_servidor_def curso_cubre_def py_ascii_def
        ascii_lower_char_def)
  then have fno: "find (curso_cubre py_ascii ''U1'' (srv_nombre ej_servidor) ''ssh'')
                    (map snd (cursos ej_catalogo)) = None"
    by (simp add: find_None_iff)
  show ?thesis
    using a b ej_buscar_http ej_buscar_ssh no fno ej_autoriza_http
      autorizacion_primer_curso [OF a b ej_buscar_http, of ej_entorno]
      autorizacion_primer_curso [OF a b ej_buscar_ssh, of ej_entorno]
    by simp
qed

subsection \<open>The two connection tables\<close>













subsection \<open>Flow names\<close>

















subsection \<open>The flows recorded by an installation\<close>








subsection \<open>Attachment points\<close>

lemma mac_map_sano: "list_all (\<lambda>(k, ap). \<not> sin_punto ap) mac_map"
  by (simp add: mac_map_def sin_punto_def)

lemma buscar_mac_map_sano:
  "list_all (\<lambda>(k, ap). \<not> sin_punto ap) m \<Longrightarrow> \<not> sin_punto (buscar_mac_map py x m)"
  by (induction m) (auto simp add: sin_punto_def split: if_splits)

lemma buscar_dispositivo_sano:
  "list_all (\<lambda>d. list_all (\<lambda>ap. case ap of None \<Rightarrow> True | Some p \<Rightarrow> \<not> sin_punto p)
                                (dev_attachmentPoint d)) devices
   \<Longrightarrow> buscar_dispositivo py mac devices = Some ap \<Longrightarrow> \<not> sin_punto ap"
  by (induction devices) (auto split: if_splits list.splits option.splits)

lemma get_attachment_point_sano:
  assumes "respuesta_sana resp"
  shows "\<not> sin_punto (get_attachment_point py resp mac)"
proof (cases "consultar_dispositivos py resp mac")
  case None
  then show ?thesis
    by (simp add: get_attachment_point_def buscar_mac_map_sano [OF mac_map_sano])
next
  case (Some ap)
  then obtain code devices where r: "resp = Respuesta code (Some devices)"
    and b: "buscar_dispositivo py mac devices = Some ap"
    by (auto simp add: consultar_dispositivos_def split: respuesta.splits if_splits option.splits)
  from assms r have "list_all (\<lambda>d. list_all (\<lambda>ap. case ap of None \<Rightarrow> True | Some p \<Rightarrow> \<not> sin_punto p)
                                (dev_attachmentPoint d)) devices"
    by (simp add: respuesta_sana_def)
  from buscar_dispositivo_sano [OF this b] Some show ?thesis
    by (simp add: get_attachment_point_def)
qed

lemma flujos_salto_ok:
  "es_tcp py (svc_protocolo (con_servicio c)) = Some t \<Longrightarrow>
     \<exists>a b. flujos_salto py c d i out = Some [FlowName (flow_name_forward (con_id c) d i out),
                FlowName (flow_name_reverse (con_id c) d i out), a, b]"
  by (simp add: flujos_salto_def flow_forward_def flow_reverse_def)

lemma instalar_flujos_ok:
  "es_tcp py (svc_protocolo (con_servicio c)) = Some t \<Longrightarrow>
     \<exists>fl. instalar_flujos py c inp ruta acc = Some fl"
proof (induction ruta arbitrary: inp acc)
  case Nil
  then show ?case by simp
next
  case (Cons h ruta)
  obtain d out where h: "h = (d, out)" by (cases h)
  from flujos_salto_ok [OF Cons.prems, of d inp out] obtain nuevos
    where "flujos_salto py c d inp out = Some nuevos" by blast
  with Cons h show ?case by simp
qed

lemma build_route_ok:
  assumes "es_tcp py (svc_protocolo (con_servicio c)) = Some t" and "ruta \<noteq> []"
  shows "fst (build_route py resp ruta c s)"
proof -
  from instalar_flujos_ok [OF assms(1)] obtain fl where
    "instalar_flujos py c (snd (get_attachment_point py resp (alu_mac (con_alumno c)))) ruta [] = Some fl"
    by blast
  with assms(2) show ?thesis by (simp add: build_route_def)
qed

lemma get_route_no_vacia:
  "consultar_ruta resp \<noteq> Some [] \<Longrightarrow> get_route resp a b c d \<noteq> []"
  by (auto simp add: get_route_def split: option.splits)

lemma crear_conexion_ok:
  assumes "respuesta_sana (dispositivos_alumno e)" and "respuesta_sana (dispositivos_servidor e)"
    and "map_of (alumnos s) u = Some a" and "map_of (servidores s) sv = Some srv"
    and "buscar_servicio py sn (srv_servicios srv) = Some svc"
    and "buscar_autorizador py u srv svc (cursos s) = Some cu"
    and "es_tcp py (svc_protocolo svc) = Some t"
    and "consultar_ruta (ruta_controlador e) \<noteq> Some []"
  shows "fst (crear_conexion py e u sv sn s)"
proof -
  note ap1 = get_attachment_point_sano [OF assms(1), of py "alu_mac a"]
  note ap2 = get_attachment_point_sano [OF assms(2), of py "''fa:16:3e:6c:a0:7c''"]
  note rt = get_route_no_vacia [OF assms(8)]
  have "es_tcp py (svc_protocolo (con_servicio
          (Conexion (uuid8 e) a srv svc\<lparr>con_ruta := r\<rparr>))) = Some t" for r
    using assms(7) by (simp add: Conexion_def)
  note br = build_route_ok [OF this]
  show ?thesis
    using assms(3-6) ap1 ap2 rt br
    by (simp add: crear_conexion_def Let_def)
qed

text \<open>
  C9, as the source has it. \<open>get_attachment_point\<close> is total. When the controller gives
  no attachment point (no reply, a status other than 200, a reply that cannot be decoded,
  or no device with the address and an attachment point), the result is an entry of the
  static table or the generic attachment point, and its switch identifier is not empty
  and its port is not zero. When the controller gives one, it is returned as reported;
  so the result has a switch identifier and a port that count as true whenever every
  attachment point of the reply has. With such replies to the two device queries, a
  request of an existing user for an existing service that a course authorises, whose
  protocol is a string, and for which the controller does not reply with an empty route,
  passes the two attachment checks of \<open>crear_conexion\<close> and succeeds.
\<close>

theorem punto_de_conexion:
  "(consultar_dispositivos py resp mac = None
      \<longrightarrow> get_attachment_point py resp mac = buscar_mac_map py (normalizar_mac py mac) mac_map)
   \<and> \<not> sin_punto (buscar_mac_map py (normalizar_mac py mac) mac_map)
   \<and> (respuesta_sana resp \<longrightarrow> \<not> sin_punto (get_attachment_point py resp mac))
   \<and> (respuesta_sana (dispositivos_alumno e) \<and> respuesta_sana (dispositivos_servidor e)
       \<and> map_of (alumnos s) u = Some a \<and> map_of (servidores s) sv = Some srv
       \<and> buscar_servicio py sn (srv_servicios srv) = Some svc
       \<and> buscar_autorizador py u srv svc (cursos s) = Some cu
       \<and> es_tcp py (svc_protocolo svc) = Some t
       \<and> consultar_ruta (ruta_controlador e) \<noteq> Some []
      \<longrightarrow> fst (crear_conexion py e u sv sn s))"
  using get_attachment_point_sano [of resp py mac] buscar_mac_map_sano [OF mac_map_sano]
    crear_conexion_ok [of e s u a sv srv py sn svc cu t]
  by (simp add: get_attachment_point_def)

text \<open>The witness: without a controller, \<open>U1\<close> gets the generic attachment point and
  the connection for \<open>HTTP\<close> is created.\<close>

theorem punto_de_conexion_witness:
  "consultar_dispositivos py_ascii SinRespuesta ''aa:bb:cc:dd:ee:01'' = None
   \<and> get_attachment_point py_ascii SinRespuesta ''aa:bb:cc:dd:ee:01''
       = buscar_mac_map py_ascii (normalizar_mac py_ascii ''aa:bb:cc:dd:ee:01'') mac_map
   \<and> \<not> sin_punto (buscar_mac_map py_ascii (normalizar_mac py_ascii ''aa:bb:cc:dd:ee:01'') mac_map)
   \<and> respuesta_sana ej_dispositivos
   \<and> \<not> sin_punto (get_attachment_point py_ascii ej_dispositivos ''aa:bb:cc:dd:ee:01'')
   \<and> consultar_ruta (ruta_controlador ej_sin_controlador) \<noteq> Some []
   \<and> fst (crear_conexion py_ascii ej_sin_controlador ''U1'' ''S1'' ''http'' ej_catalogo)"
proof -
  have n: "consultar_dispositivos py_ascii SinRespuesta ''aa:bb:cc:dd:ee:01'' = None"
    by (simp add: consultar_dispositivos_def)
  have sd: "respuesta_sana ej_dispositivos"
    by (simp add: respuesta_sana_def ej_dispositivos_def sin_punto_def)
  have s1: "respuesta_sana (dispositivos_alumno ej_sin_controlador)"
    and s2: "respuesta_sana (dispositivos_servidor ej_sin_controlador)"
    by (simp_all add: respuesta_sana_def ej_sin_controlador_def)
  have r: "consultar_ruta (ruta_controlador ej_sin_controlador) \<noteq> Some []"
    by (simp add: consultar_ruta_def ej_sin_controlador_def)
  show ?thesis
    using n sd s1 s2 r ej_catalogo_sel(1,2) ej_buscar_http ej_autoriza_http ej_es_tcp
      punto_de_conexion [where py = py_ascii and resp = SinRespuesta and mac = "''aa:bb:cc:dd:ee:01''"
        and e = ej_sin_controlador and s = ej_catalogo and u = "''U1''" and a = ej_alumno
        and sv = "''S1''" and srv = ej_servidor and sn = "''http''" and svc = ej_http
        and cu = ej_curso and t = True]
      punto_de_conexion [where py = py_ascii and resp = ej_dispositivos and mac = "''aa:bb:cc:dd:ee:01''"
        and e = ej_sin_controlador and s = ej_catalogo and u = "''U1''" and a = ej_alumno
        and sv = "''S1''" and srv = ej_servidor and sn = "''http''" and svc = ej_http
        and cu = ej_curso and t = True]
    by simp
qed

text \<open>Against C9 as stated: the controller reports \<open>U1\<close> on port 0; the port is
  returned as it is, and \<open>crear_conexion\<close> takes the branch that removes the connection
  and returns false, although course \<open>C1\<close> authorises the request.\<close>

theorem punto_de_conexion_counterexample:
  "get_attachment_point py_ascii ej_puerto_cero ''aa:bb:cc:dd:ee:01'' = (''00:00:00:00:00:00:00:01'', 0)
   \<and> sin_punto (get_attachment_point py_ascii ej_puerto_cero ''aa:bb:cc:dd:ee:01'')
   \<and> buscar_autorizador py_ascii ''U1'' ej_servidor ej_http (cursos ej_catalogo) = Some ej_curso
   \<and> crear_conexion py_ascii (ej_entorno\<lparr>dispositivos_alumno := ej_puerto_cero\<rparr>) ''U1'' ''S1'' ''http''
        ej_catalogo = (False, ej_catalogo)"
proof -
  have ap: "get_attachment_point py_ascii ej_puerto_cero ''aa:bb:cc:dd:ee:01''
              = (''00:00:00:00:00:00:00:01'', 0)"
    by (simp add: ej_puerto_cero_def get_attachment_point_def consultar_dispositivos_def
        normalizar_mac_def py_ascii_def ascii_lower_char_def)
  have "crear_conexion py_ascii (ej_entorno\<lparr>dispositivos_alumno := ej_puerto_cero\<rparr>) ''U1'' ''S1'' ''http''
        ej_catalogo = (False, ej_catalogo)"
    by (simp add: crear_conexion_def ej_catalogo_sel ej_buscar_http ej_autoriza_http ej_mac ap
        sin_punto_def Let_def quitar_conexion_def Conexion_id ej_catalogo_def)
  with ap ej_autoriza_http show ?thesis by (simp add: sin_punto_def)
qed



subsection \<open>Import followed by export\<close>

lemma dict_set_nueva: "k \<notin> fst ` set d \<Longrightarrow> dict_set k v d = d @ [(k, v)]"
  by (induction d) auto

lemma cargar_servicios_completo:
  "list_all svc_completo l \<Longrightarrow>
     \<exists>srv'. cargar_servicios l srv = Some srv'
       \<and> srv_nombre srv' = srv_nombre srv \<and> srv_ip srv' = srv_ip srv
       \<and> map exportar_servicio (srv_servicios srv')
           = map exportar_servicio (srv_servicios srv) @ l"
proof (induction l arbitrary: srv)
  case Nil
  then show ?case by simp
next
  case (Cons x l)
  from Cons.prems obtain n p q where x: "x = \<lparr>sd_nombre = Some n, sd_protocolo = Some p, sd_puerto = Some q\<rparr>"
    by (cases x) (auto simp add: svc_completo_def)
  from Cons.prems have "list_all svc_completo l" by simp
  from Cons.IH [OF this, of "agregar_servicio \<lparr>svc_nombre = n, svc_protocolo = p, svc_puerto = q\<rparr> srv"]
  show ?case by (auto simp add: x agregar_servicio_def exportar_servicio_def)
qed

lemma cargar_servidor_completo:
  assumes "srv_completo x"
  shows "\<exists>srv. cargar_servidor x = Some srv \<and> exportar_servidor srv = x
           \<and> vd_nombre x = Some (srv_nombre srv)"
proof -
  from assms obtain n ip l where x: "x = \<lparr>vd_nombre = Some n, vd_ip = Some ip, vd_servicios = Some l\<rparr>"
    and l: "list_all svc_completo l"
    by (cases x) (auto simp add: srv_completo_def split: option.splits)
  from cargar_servicios_completo [OF l, of "\<lparr>srv_nombre = n, srv_ip = ip, srv_servicios = []\<rparr>"]
  show ?thesis by (auto simp add: x cargar_servidor_def exportar_servidor_def)
qed

lemma cargar_servidores_completo:
  "list_all srv_completo l \<Longrightarrow> distinct (map vd_nombre l)
   \<Longrightarrow> (\<forall>x \<in> set l. \<forall>n. vd_nombre x = Some n \<longrightarrow> n \<notin> fst ` set d)
   \<Longrightarrow> \<exists>d'. cargar_servidores l d = (True, d @ d')
          \<and> map (\<lambda>(k, srv). exportar_servidor srv) d' = l
          \<and> map fst d' = map (\<lambda>x. the (vd_nombre x)) l
          \<and> (\<forall>(k, srv) \<in> set d'. srv_nombre srv = k)"
proof (induction l arbitrary: d)
  case Nil
  then show ?case by simp
next
  case (Cons x l)
  from Cons.prems(1) have cx: "srv_completo x" and cl: "list_all srv_completo l" by simp_all
  from cargar_servidor_completo [OF cx] obtain srv where
    s: "cargar_servidor x = Some srv" and e: "exportar_servidor srv = x"
    and n: "vd_nombre x = Some (srv_nombre srv)" by blast
  from Cons.prems(3) n have fresh: "srv_nombre srv \<notin> fst ` set d" by simp
  have dl: "distinct (map vd_nombre l)" using Cons.prems(2) by simp
  have "\<forall>y \<in> set l. \<forall>m. vd_nombre y = Some m \<longrightarrow> m \<notin> fst ` set (d @ [(srv_nombre srv, srv)])"
  proof (intro ballI allI impI)
    fix y m assume y: "y \<in> set l" and m: "vd_nombre y = Some m"
    from Cons.prems(3) y m have "m \<notin> fst ` set d" by simp
    moreover from Cons.prems(2) y n m have "m \<noteq> srv_nombre srv" by force
    ultimately show "m \<notin> fst ` set (d @ [(srv_nombre srv, srv)])" by simp
  qed
  from Cons.IH [OF cl dl this] obtain d' where
    "cargar_servidores l (d @ [(srv_nombre srv, srv)]) = (True, (d @ [(srv_nombre srv, srv)]) @ d')"
    and "map (\<lambda>(k, srv). exportar_servidor srv) d' = l"
    and "map fst d' = map (\<lambda>x. the (vd_nombre x)) l"
    and "\<forall>(k, srv) \<in> set d'. srv_nombre srv = k" by blast
  with s e n fresh show ?case
    by (intro exI [of _ "(srv_nombre srv, srv) # d'"]) (simp add: dict_set_nueva)
qed

lemma cargar_alumno_completo:
  assumes "alu_completo x"
  shows "\<exists>a. cargar_alumno x = Some a \<and> exportar_alumno a = x \<and> ad_codigo x = Some (alu_codigo a)"
proof -
  from assms obtain n c m where "x = \<lparr>ad_nombre = Some n, ad_codigo = Some c, ad_mac = Some m\<rparr>"
    by (cases x) (auto simp add: alu_completo_def)
  then show ?thesis by (simp add: cargar_alumno_def exportar_alumno_def)
qed

lemma cargar_alumnos_completo:
  "list_all alu_completo l \<Longrightarrow> distinct (map ad_codigo l)
   \<Longrightarrow> (\<forall>x \<in> set l. \<forall>n. ad_codigo x = Some n \<longrightarrow> n \<notin> fst ` set d)
   \<Longrightarrow> \<exists>d'. cargar_alumnos l d = (True, d @ d')
          \<and> map (\<lambda>(k, a). exportar_alumno a) d' = l"
proof (induction l arbitrary: d)
  case Nil
  then show ?case by simp
next
  case (Cons x l)
  from Cons.prems(1) have cx: "alu_completo x" and cl: "list_all alu_completo l" by simp_all
  from cargar_alumno_completo [OF cx] obtain a where
    s: "cargar_alumno x = Some a" and e: "exportar_alumno a = x"
    and n: "ad_codigo x = Some (alu_codigo a)" by blast
  from Cons.prems(3) n have fresh: "alu_codigo a \<notin> fst ` set d" by simp
  have dl: "distinct (map ad_codigo l)" using Cons.prems(2) by simp
  have "\<forall>y \<in> set l. \<forall>m. ad_codigo y = Some m \<longrightarrow> m \<notin> fst ` set (d @ [(alu_codigo a, a)])"
  proof (intro ballI allI impI)
    fix y m assume y: "y \<in> set l" and m: "ad_codigo y = Some m"
    from Cons.prems(3) y m have "m \<notin> fst ` set d" by simp
    moreover from Cons.prems(2) y n m have "m \<noteq> alu_codigo a" by force
    ultimately show "m \<notin> fst ` set (d @ [(alu_codigo a, a)])" by simp
  qed
  from Cons.IH [OF cl dl this] obtain d' where
    "cargar_alumnos l (d @ [(alu_codigo a, a)]) = (True, (d @ [(alu_codigo a, a)]) @ d')"
    and "map (\<lambda>(k, a). exportar_alumno a) d' = l" by blast
  with s e fresh show ?case
    by (intro exI [of _ "(alu_codigo a, a) # d'"]) (simp add: dict_set_nueva)
qed

lemma miembros_normales:
  "list_all (miembro_normal py) l \<Longrightarrow> distinct l
   \<Longrightarrow> set (map py_str l) \<inter> set (cur_alumnos c) = {}
   \<Longrightarrow> fold (\<lambda>codigo_alumno. agregar_alumno (str_strip py (py_str codigo_alumno))) l c
         = c\<lparr>cur_alumnos := cur_alumnos c @ map py_str l\<rparr>
       \<and> map YStr (map py_str l) = l"
proof (induction l arbitrary: c)
  case Nil
  then show ?case by simp
next
  case (Cons m l)
  from Cons.prems(1) obtain x where m: "m = YStr x" and x: "str_strip py x = x"
    by (cases m) (auto simp add: miembro_normal_def)
  from Cons.prems(3) m have nx: "x \<notin> set (cur_alumnos c)" by auto
  have l: "list_all (miembro_normal py) l" and d: "distinct l" using Cons.prems by simp_all
  have ys: "\<forall>y \<in> set l. \<exists>z. y = YStr z"
  proof
    fix y assume "y \<in> set l"
    with l have "miembro_normal py y" by (simp add: list_all_iff)
    then show "\<exists>z. y = YStr z" by (cases y) (simp_all add: miembro_normal_def)
  qed
  have "x \<notin> set (map py_str l)"
  proof
    assume "x \<in> set (map py_str l)"
    then obtain y where y: "y \<in> set l" and "py_str y = x" by auto
    with ys have "y = YStr x" by auto
    with y m Cons.prems(2) show False by simp
  qed
  with Cons.prems(3) m
  have "set (map py_str l) \<inter> set (cur_alumnos (c\<lparr>cur_alumnos := cur_alumnos c @ [x]\<rparr>)) = {}"
    by auto
  from Cons.IH [OF l d this] m x nx show ?case
    by (simp add: agregar_alumno_def)
qed

lemma cargar_permisos_completo:
  "list_all (permiso_completo nombres) l
   \<Longrightarrow> (\<forall>n \<in> set nombres. \<exists>srv. map_of servs n = Some srv \<and> srv_nombre srv = n)
   \<Longrightarrow> \<exists>gs. cargar_permisos servs l c = Some (c\<lparr>cur_servidores := cur_servidores c @ gs\<rparr>)
          \<and> map (\<lambda>(srv, servicios_permitidos).
                \<lparr>pd_nombre = Some (srv_nombre srv),
                 pd_servicios_permitidos = Some servicios_permitidos\<rparr>) gs = l"
proof (induction l arbitrary: c)
  case Nil
  then show ?case by simp
next
  case (Cons x l)
  from Cons.prems(1) obtain n sp where
    x: "x = \<lparr>pd_nombre = Some n, pd_servicios_permitidos = Some sp\<rparr>" and n: "n \<in> set nombres"
    by (cases x) (auto simp add: permiso_completo_def split: option.splits)
  from Cons.prems(2) n obtain srv where srv: "map_of servs n = Some srv" "srv_nombre srv = n"
    by blast
  from Cons.prems(1) have "list_all (permiso_completo nombres) l" by simp
  from Cons.IH [OF this Cons.prems(2), of "agregar_servidor srv sp c"] obtain gs where
    "cargar_permisos servs l (agregar_servidor srv sp c)
       = Some (agregar_servidor srv sp c\<lparr>cur_servidores := cur_servidores (agregar_servidor srv sp c) @ gs\<rparr>)"
    and "map (\<lambda>(srv, servicios_permitidos).
                \<lparr>pd_nombre = Some (srv_nombre srv),
                 pd_servicios_permitidos = Some servicios_permitidos\<rparr>) gs = l" by blast
  with x srv show ?case
    by (intro exI [of _ "(srv, sp) # gs"]) (simp add: agregar_servidor_def)
qed

lemma cargar_curso_completo:
  assumes "curso_completo py nombres x"
    and "\<forall>n \<in> set nombres. \<exists>srv. map_of servs n = Some srv \<and> srv_nombre srv = n"
  shows "\<exists>c. cargar_curso py servs x = Some c \<and> exportar_curso c = x
           \<and> cd_codigo x = Some (cur_codigo c)"
proof -
  from assms(1) obtain co no es al ps where
    x: "x = \<lparr>cd_codigo = Some co, cd_nombre = Some no, cd_estado = Some es,
              cd_alumnos = Some al, cd_servidores = Some ps\<rparr>"
    and al: "list_all (miembro_normal py) al" "distinct al"
    and ps: "list_all (permiso_completo nombres) ps"
    by (cases x) (auto simp add: curso_completo_def split: option.splits)
  have "set (map py_str al) \<inter> set (cur_alumnos (Curso co no es)) = {}"
    by (simp add: Curso_def)
  from miembros_normales [OF al this]
  have f: "fold (\<lambda>codigo_alumno. agregar_alumno (str_strip py (py_str codigo_alumno))) al (Curso co no es)
         = Curso co no es\<lparr>cur_alumnos := map py_str al\<rparr>"
    and y: "map YStr (map py_str al) = al"
    by (simp_all add: Curso_def)
  from cargar_permisos_completo [OF ps assms(2), of "Curso co no es\<lparr>cur_alumnos := map py_str al\<rparr>"]
  obtain gs where
    "cargar_permisos servs ps (Curso co no es\<lparr>cur_alumnos := map py_str al\<rparr>)
       = Some (Curso co no es\<lparr>cur_alumnos := map py_str al, cur_servidores := gs\<rparr>)"
    and "map (\<lambda>(srv, servicios_permitidos).
                \<lparr>pd_nombre = Some (srv_nombre srv),
                 pd_servicios_permitidos = Some servicios_permitidos\<rparr>) gs = ps"
    by (auto simp add: Curso_def)
  with f y show ?thesis
    by (simp add: x cargar_curso_def Let_def exportar_curso_def Curso_def)
qed

lemma cargar_cursos_completo:
  "list_all (curso_completo py nombres) l \<Longrightarrow> distinct (map cd_codigo l)
   \<Longrightarrow> (\<forall>n \<in> set nombres. \<exists>srv. map_of servs n = Some srv \<and> srv_nombre srv = n)
   \<Longrightarrow> (\<forall>x \<in> set l. \<forall>n. cd_codigo x = Some n \<longrightarrow> n \<notin> fst ` set d)
   \<Longrightarrow> \<exists>d'. cargar_cursos py servs l d = d @ d'
          \<and> map (\<lambda>(k, c). exportar_curso c) d' = l"
proof (induction l arbitrary: d)
  case Nil
  then show ?case by simp
next
  case (Cons x l)
  from Cons.prems(1) have cx: "curso_completo py nombres x"
    and cl: "list_all (curso_completo py nombres) l" by simp_all
  from cargar_curso_completo [OF cx Cons.prems(3)] obtain c where
    s: "cargar_curso py servs x = Some c" and e: "exportar_curso c = x"
    and n: "cd_codigo x = Some (cur_codigo c)" by blast
  from Cons.prems(4) n have fresh: "cur_codigo c \<notin> fst ` set d" by simp
  have dl: "distinct (map cd_codigo l)" using Cons.prems(2) by simp
  have "\<forall>y \<in> set l. \<forall>m. cd_codigo y = Some m \<longrightarrow> m \<notin> fst ` set (d @ [(cur_codigo c, c)])"
  proof (intro ballI allI impI)
    fix y m assume y: "y \<in> set l" and m: "cd_codigo y = Some m"
    from Cons.prems(4) y m have "m \<notin> fst ` set d" by simp
    moreover from Cons.prems(2) y n m have "m \<noteq> cur_codigo c" by force
    ultimately show "m \<notin> fst ` set (d @ [(cur_codigo c, c)])" by simp
  qed
  from Cons.IH [OF cl dl Cons.prems(3) this] obtain d' where
    "cargar_cursos py servs l (d @ [(cur_codigo c, c)]) = (d @ [(cur_codigo c, c)]) @ d'"
    and "map (\<lambda>(k, c). exportar_curso c) d' = l" by blast
  with s e fresh show ?case
    by (intro exI [of _ "(cur_codigo c, c) # d'"]) (simp add: dict_set_nueva)
qed

lemma map_of_nombres:
  assumes "\<forall>(k, srv) \<in> set d. srv_nombre srv = k" and "n \<in> fst ` set d"
  shows "\<exists>srv. map_of d n = Some srv \<and> srv_nombre srv = n"
proof -
  from assms(2) obtain srv where "map_of d n = Some srv"
    by (metis domD dom_map_of_conv_image_fst)
  moreover from this have "(n, srv) \<in> set d" by (rule map_of_SomeD)
  ultimately show ?thesis using assms(1) by auto
qed

lemma importar_exportar:
  assumes "documento_normal py datos"
  shows "fst (importar_archivo py (Datos datos) s)
         \<and> exportar_datos (snd (importar_archivo py (Datos datos) s)) = datos"
proof -
  from assms obtain servs alus curs where
    d: "datos = \<lparr>d_servidores = Some servs, d_alumnos = Some alus, d_cursos = Some curs\<rparr>"
    and sv: "list_all srv_completo servs" "distinct (map vd_nombre servs)"
    and al: "list_all alu_completo alus" "distinct (map ad_codigo alus)"
    and cu: "list_all (curso_completo py (map (the \<circ> vd_nombre) servs)) curs"
            "distinct (map cd_codigo curs)"
    by (cases datos) (auto simp add: documento_normal_def split: option.splits)
  from cargar_servidores_completo [OF sv, of "[]"] obtain ds where
    ds: "cargar_servidores servs [] = (True, ds)"
    and dse: "map (\<lambda>(k, srv). exportar_servidor srv) ds = servs"
    and dsn: "map fst ds = map (\<lambda>x. the (vd_nombre x)) servs"
    and dsk: "\<forall>(k, srv) \<in> set ds. srv_nombre srv = k" by auto
  from cargar_alumnos_completo [OF al, of "[]"] obtain da where
    da: "cargar_alumnos alus [] = (True, da)"
    and dae: "map (\<lambda>(k, a). exportar_alumno a) da = alus" by auto
  from dsn have nombres: "map fst ds = map (the \<circ> vd_nombre) servs"
    by (simp add: comp_def)
  have "\<forall>n \<in> set (map (the \<circ> vd_nombre) servs). \<exists>srv. map_of ds n = Some srv \<and> srv_nombre srv = n"
  proof
    fix n assume "n \<in> set (map (the \<circ> vd_nombre) servs)"
    with nombres have "n \<in> fst ` set ds" by (metis set_map)
    with dsk show "\<exists>srv. map_of ds n = Some srv \<and> srv_nombre srv = n"
      by (rule map_of_nombres)
  qed
  from cargar_cursos_completo [OF cu this, of "[]"] obtain dc where
    dc: "cargar_cursos py ds curs [] = dc"
    and dce: "map (\<lambda>(k, c). exportar_curso c) dc = curs" by auto
  from ds da dc dse dae dce show ?thesis
    by (simp add: d importar_archivo_def Let_def exportar_datos_def)
qed

text \<open>
  C7, as the source has it. For a catalog document in the form that the export writes
  (the three collections and every key of every entry present; no server name, user
  code or course code repeated; the members of each course strings that
  \<^verbatim>\<open>str.strip\<close> leaves as they are, none repeated; every grant naming a server of the
  document), the import accepts the document and exporting the catalog it built gives
  back the same document, field by field and in the same order.
\<close>

theorem ida_y_vuelta:
  assumes "documento_normal py datos"
  shows "fst (importar_archivo py (Datos datos) s)
         \<and> exportar_archivo True (snd (importar_archivo py (Datos datos) s)) = (True, Some datos)"
  using importar_exportar [OF assms, of s] by (simp add: exportar_archivo_def)


text \<open>The witness: the document of the small catalog.\<close>

theorem ida_y_vuelta_witness:
  "documento_normal py_ascii ej_documento
   \<and> fst (importar_archivo py_ascii (Datos ej_documento) init)
   \<and> snd (importar_archivo py_ascii (Datos ej_documento) init) = ej_catalogo
   \<and> exportar_archivo True (snd (importar_archivo py_ascii (Datos ej_documento) init))
       = (True, Some ej_documento)"
proof -
  have h: "documento_normal py_ascii ej_documento"
    by (simp add: documento_normal_def ej_documento_def srv_completo_def svc_completo_def
        alu_completo_def curso_completo_def miembro_normal_def permiso_completo_def py_ascii_def
        ascii_space_def)
  show ?thesis
    using h ida_y_vuelta [OF h, of init] by (simp add: ej_importar)
qed

text \<open>Against C7 as stated: a document that lists the user code \<open>U1\<close> twice is
  accepted; the dictionary keeps one user for the code (the later one), and the export
  has one user where the document has two.\<close>

theorem ida_y_vuelta_counterexample:
  "fst (importar_archivo py_ascii (Datos ej_duplicado) init)
   \<and> length (the (d_alumnos ej_duplicado)) = 2
   \<and> exportar_archivo True (snd (importar_archivo py_ascii (Datos ej_duplicado) init))
       = (True, Some
           \<lparr>d_servidores = Some [],
            d_alumnos = Some
              [\<lparr>ad_nombre = Some ''Luis'', ad_codigo = Some ''U1'',
                ad_mac = Some ''aa:bb:cc:dd:ee:02''\<rparr>],
            d_cursos = Some []\<rparr>)"
  by (simp add: importar_archivo_def ej_duplicado_def init_def cargar_alumno_def Let_def
      exportar_archivo_def exportar_datos_def exportar_alumno_def)



subsection \<open>Failed installation\<close>















end
